theory Spec2Isabelle
  imports Complex_Main
begin

section \<open>Python values, exceptions and the object store\<close>

text \<open>
  The two components are Python. Numbers (Python floats and ints) are modelled as exact
  rationals; strings as \<open>string\<close>; \<open>None\<close> as a value of its own. A raised exception is
  the left injection of the result type, so every call that can raise has an error branch.
\<close>

datatype error = KeyError | TypeError | ValueError | AttributeError | IndexError | BadRef

type_synonym 'a result = "error + 'a"

definition rbind :: "'a result \<Rightarrow> ('a \<Rightarrow> 'b result) \<Rightarrow> 'b result" where
  "rbind m f = (case m of Inl e \<Rightarrow> Inl e | Inr x \<Rightarrow> f x)"

text \<open>
  A dict is an association list: a new key goes to the end and an existing key is
  replaced in place, as in Python. The mutable objects of the weather entity (dicts and
  lists) live in a store; a reference is the object's index in it. \<open>BadRef\<close> is not a
  Python exception: it stands for a reference to no object, which a Python run never holds.
\<close>

datatype pyval = PNone | PNum rat | PStr string | PRef nat

type_synonym pydict = "(string \<times> pyval) list"

datatype pyobj = ODict pydict | OList "pyval list"

type_synonym heap = "pyobj list"

definition dict_get :: "pydict \<Rightarrow> string \<Rightarrow> pyval" where
  \<comment> \<open>\<open>d.get(k)\<close>: \<open>None\<close> for an absent key.\<close>
  "dict_get d k = (case map_of d k of None \<Rightarrow> PNone | Some v \<Rightarrow> v)"

fun dict_set :: "string \<Rightarrow> pyval \<Rightarrow> pydict \<Rightarrow> pydict" where
  \<comment> \<open>the content of \<open>d\<close> after \<open>d[k] = v\<close>.\<close>
  "dict_set k v [] = [(k, v)]"
| "dict_set k v (p # ps) = (if fst p = k then (k, v) # ps else p # dict_set k v ps)"

definition alloc :: "pyobj \<Rightarrow> heap \<Rightarrow> nat \<times> heap" where
  "alloc obj h = (length h, h @ [obj])"

definition get_dict :: "heap \<Rightarrow> nat \<Rightarrow> pydict result" where
  "get_dict h a =
     (if a < length h then (case h ! a of ODict d \<Rightarrow> Inr d | OList _ \<Rightarrow> Inl TypeError)
      else Inl BadRef)"

definition get_list :: "heap \<Rightarrow> nat \<Rightarrow> pyval list result" where
  "get_list h a =
     (if a < length h then (case h ! a of OList xs \<Rightarrow> Inr xs | ODict _ \<Rightarrow> Inl TypeError)
      else Inl BadRef)"

definition getitem_get :: "heap \<Rightarrow> nat \<Rightarrow> string \<Rightarrow> pyval result" where
  \<comment> \<open>\<open>obj.get(k)\<close> on the dict object at reference \<open>a\<close>.\<close>
  "getitem_get h a k = rbind (get_dict h a) (\<lambda>d. Inr (dict_get d k))"

definition setitem :: "nat \<Rightarrow> string \<Rightarrow> pyval \<Rightarrow> heap \<Rightarrow> heap result" where
  \<comment> \<open>\<open>obj[k] = v\<close> on the dict object at reference \<open>a\<close>: the object is changed in place.\<close>
  "setitem a k v h = rbind (get_dict h a) (\<lambda>d. Inr (h[a := ODict (dict_set k v d)]))"

definition list_append :: "nat \<Rightarrow> pyval \<Rightarrow> heap \<Rightarrow> heap result" where
  \<comment> \<open>\<open>obj.append(v)\<close> on the list object at reference \<open>a\<close>.\<close>
  "list_append a v h = rbind (get_list h a) (\<lambda>xs. Inr (h[a := OList (xs @ [v])]))"

definition as_number :: "pyval \<Rightarrow> rat result" where
  \<comment> \<open>A value used as a number by a conversion helper and by \<open>round\<close>: anything but a
      number raises \<open>TypeError\<close> there.\<close>
  "as_number v = (case v of PNum x \<Rightarrow> Inr x | _ \<Rightarrow> Inl TypeError)"

subsection \<open>Python's \<open>round\<close>\<close>

text \<open>
  \<open>round\<close> is modelled on the exact value of its argument: it picks the decimal that
  Python picks for a float of that value. Python returns the float nearest to that
  decimal; the model keeps the decimal itself, so no theorem below bounds the distance
  between a value and its rounding.
\<close>

definition round_half_even :: "rat \<Rightarrow> int" where
  "round_half_even x =
     (let f = \<lfloor>x\<rfloor>; r = x - of_int f
      in if r < 1 / 2 then f else if 1 / 2 < r then f + 1 else if even f then f else f + 1)"

definition py_round :: "rat \<Rightarrow> nat \<Rightarrow> rat" where
  \<comment> \<open>\<open>round(x, ndigits)\<close>: the nearest multiple of \<open>10 ** -ndigits\<close>, a tie going to the
      even one.\<close>
  "py_round x ndigits = of_int (round_half_even (x * 10 ^ ndigits)) / 10 ^ ndigits"

definition py_round_int :: "rat \<Rightarrow> rat" where
  \<comment> \<open>\<open>round(x)\<close>: the nearest integer, a tie going to the even one.\<close>
  "py_round_int x = of_int (round_half_even x)"

section \<open>The weather entity\<close>

subsection \<open>Constants of \<open>homeassistant/components/weather/__init__.py\<close>\<close>

definition ATTR_FORECAST :: string where "ATTR_FORECAST = ''forecast''"
definition ATTR_FORECAST_PRECIPITATION :: string where
  "ATTR_FORECAST_PRECIPITATION = ''precipitation''"
definition ATTR_FORECAST_PRESSURE :: string where "ATTR_FORECAST_PRESSURE = ''pressure''"
definition ATTR_FORECAST_TEMP :: string where "ATTR_FORECAST_TEMP = ''temperature''"
definition ATTR_FORECAST_TEMP_LOW :: string where "ATTR_FORECAST_TEMP_LOW = ''templow''"
definition ATTR_FORECAST_WIND_SPEED :: string where
  "ATTR_FORECAST_WIND_SPEED = ''wind_speed''"
definition ATTR_WEATHER_HUMIDITY :: string where "ATTR_WEATHER_HUMIDITY = ''humidity''"
definition ATTR_WEATHER_OZONE :: string where "ATTR_WEATHER_OZONE = ''ozone''"
definition ATTR_WEATHER_PRESSURE :: string where "ATTR_WEATHER_PRESSURE = ''pressure''"
definition ATTR_WEATHER_TEMPERATURE :: string where
  "ATTR_WEATHER_TEMPERATURE = ''temperature''"
definition ATTR_WEATHER_VISIBILITY :: string where
  "ATTR_WEATHER_VISIBILITY = ''visibility''"
definition ATTR_WEATHER_WIND_BEARING :: string where
  "ATTR_WEATHER_WIND_BEARING = ''wind_bearing''"
definition ATTR_WEATHER_WIND_SPEED :: string where
  "ATTR_WEATHER_WIND_SPEED = ''wind_speed''"
definition ATTR_WEATHER_PRECIPITATION :: string where
  "ATTR_WEATHER_PRECIPITATION = ''precipitation''"

definition ROUNDING_PRECISION :: nat where "ROUNDING_PRECISION = 2"

text \<open>
  The unit names of \<open>homeassistant.const\<close> and the helpers of \<open>homeassistant.util\<close>
  (\<open>temperature\<close>, \<open>pressure\<close>, \<open>speed\<close>, \<open>distance\<close>: their \<open>VALID_UNITS\<close> and
  \<open>convert\<close>) are imported by the component and are not part of it. They are parameters
  of the model: every function below takes them in a record. A \<open>convert\<close> helper may
  raise.
\<close>

record env =
  TEMP_CELSIUS :: string
  TEMP_FAHRENHEIT :: string
  PRESSURE_HPA :: string
  PRESSURE_INHG :: string
  LENGTH_KILOMETERS :: string
  LENGTH_MILES :: string
  LENGTH_MILLIMETERS :: string
  LENGTH_INCHES :: string
  SPEED_KILOMETERS_PER_HOUR :: string
  SPEED_MILES_PER_HOUR :: string
  SPEED_METERS_PER_SECOND :: string
  temperature_VALID_UNITS :: "string list"
  pressure_VALID_UNITS :: "string list"
  temperature_convert :: "rat \<Rightarrow> string \<Rightarrow> string \<Rightarrow> rat result"
  pressure_convert :: "rat \<Rightarrow> string \<Rightarrow> string \<Rightarrow> rat result"
  speed_convert :: "rat \<Rightarrow> string \<Rightarrow> string \<Rightarrow> rat result"
  distance_convert :: "rat \<Rightarrow> string \<Rightarrow> string \<Rightarrow> rat result"

definition VALID_UNITS :: "env \<Rightarrow> (string \<times> string list) list" where
  "VALID_UNITS c =
     [(ATTR_WEATHER_TEMPERATURE, temperature_VALID_UNITS c),
      (ATTR_WEATHER_PRESSURE, pressure_VALID_UNITS c),
      (ATTR_WEATHER_VISIBILITY, [LENGTH_KILOMETERS c, LENGTH_MILES c]),
      (ATTR_WEATHER_WIND_SPEED,
         [SPEED_KILOMETERS_PER_HOUR c, SPEED_MILES_PER_HOUR c, SPEED_METERS_PER_SECOND c]),
      (ATTR_WEATHER_PRECIPITATION, [LENGTH_MILLIMETERS c, LENGTH_INCHES c])]"

definition METRIC_UNITS :: "env \<Rightarrow> (string \<times> string) list" where
  "METRIC_UNITS c =
     [(ATTR_WEATHER_TEMPERATURE, TEMP_CELSIUS c),
      (ATTR_WEATHER_PRESSURE, PRESSURE_HPA c),
      (ATTR_WEATHER_VISIBILITY, LENGTH_KILOMETERS c),
      (ATTR_WEATHER_WIND_SPEED, SPEED_KILOMETERS_PER_HOUR c),
      (ATTR_WEATHER_PRECIPITATION, LENGTH_MILLIMETERS c)]"

definition IMPERIAL_UNITS :: "env \<Rightarrow> (string \<times> string) list" where
  "IMPERIAL_UNITS c =
     [(ATTR_WEATHER_TEMPERATURE, TEMP_FAHRENHEIT c),
      (ATTR_WEATHER_PRESSURE, PRESSURE_INHG c),
      (ATTR_WEATHER_VISIBILITY, LENGTH_MILES c),
      (ATTR_WEATHER_WIND_SPEED, SPEED_MILES_PER_HOUR c),
      (ATTR_WEATHER_PRECIPITATION, LENGTH_INCHES c)]"

subsection \<open>\<open>WeatherEntity\<close>\<close>

text \<open>
  The attributes of the entity that the conversion reads. \<open>is_metric\<close> is
  \<open>self.hass.config.units.is_metric\<close>. \<open>attr_forecast\<close> is a reference to the stored list
  object, whose items are references to the stored forecast dicts.
\<close>

record weather_entity =
  is_metric :: bool
  attr_forecast :: "nat option"
  attr_humidity :: "rat option"
  attr_ozone :: "rat option"
  attr_pressure :: "rat option"
  attr_pressure_unit :: "string option"
  attr_temperature_unit :: "string option"
  attr_temperature :: "rat option"
  attr_visibility :: "rat option"
  attr_visibility_unit :: "string option"
  attr_precipitation_unit :: "string option"
  attr_wind_bearing :: pyval
  attr_wind_speed :: "rat option"
  attr_wind_speed_unit :: "string option"
  option_units_of_measurement :: "(string \<times> string option) list option"

definition preferred_units :: "env \<Rightarrow> weather_entity \<Rightarrow> (string \<times> string) list" where
  "preferred_units c self = (if is_metric self then METRIC_UNITS c else IMPERIAL_UNITS c)"

definition options_get :: "(string \<times> string option) list \<Rightarrow> string \<Rightarrow> string option" where
  \<comment> \<open>\<open>.get(quantity)\<close> on the override dict: \<open>None\<close> for an absent key and for a key
      bound to \<open>None\<close>.\<close>
  "options_get opts quantity = (case map_of opts quantity of Some (Some u) \<Rightarrow> Some u | _ \<Rightarrow> None)"

definition displayed_unit :: "env \<Rightarrow> weather_entity \<Rightarrow> string \<Rightarrow> string result" where
  "displayed_unit c self quantity =
     (case map_of (preferred_units c self) quantity of
        None \<Rightarrow> Inl KeyError
      | Some unit \<Rightarrow>
          (case option_units_of_measurement self of
             None \<Rightarrow> Inr unit
           | Some opts \<Rightarrow>
               (case options_get opts quantity of
                  None \<Rightarrow> Inr unit
                | Some opt \<Rightarrow>
                    if opt = [] then Inr unit
                    else (case map_of (VALID_UNITS c) quantity of
                            None \<Rightarrow> Inl KeyError
                          | Some valid \<Rightarrow> if opt \<in> set valid then Inr opt else Inr unit))))"

definition convert_temperature :: "env \<Rightarrow> weather_entity \<Rightarrow> rat \<Rightarrow> string \<Rightarrow> rat result" where
  "convert_temperature c self temperature unit =
     rbind (displayed_unit c self ATTR_WEATHER_TEMPERATURE) (\<lambda>displayed.
     rbind (temperature_convert c temperature unit displayed) (\<lambda>temperature.
       if displayed = TEMP_CELSIUS c then Inr (py_round temperature 1)
       else Inr (py_round_int temperature)))"

definition convert_pressure :: "env \<Rightarrow> weather_entity \<Rightarrow> rat \<Rightarrow> string \<Rightarrow> rat result" where
  "convert_pressure c self pressure unit =
     rbind (displayed_unit c self ATTR_WEATHER_PRESSURE) (\<lambda>displayed.
     rbind (pressure_convert c pressure unit displayed) (\<lambda>pressure.
       Inr (py_round pressure ROUNDING_PRECISION)))"

definition convert_wind_speed :: "env \<Rightarrow> weather_entity \<Rightarrow> rat \<Rightarrow> string \<Rightarrow> rat result" where
  "convert_wind_speed c self wind_speed unit =
     rbind (displayed_unit c self ATTR_WEATHER_WIND_SPEED) (\<lambda>displayed.
     rbind (speed_convert c wind_speed unit displayed) (\<lambda>wind_speed.
       Inr (py_round wind_speed ROUNDING_PRECISION)))"

definition convert_visibility :: "env \<Rightarrow> weather_entity \<Rightarrow> rat \<Rightarrow> string \<Rightarrow> rat result" where
  "convert_visibility c self visibility unit =
     rbind (displayed_unit c self ATTR_WEATHER_VISIBILITY) (\<lambda>displayed.
     rbind (distance_convert c visibility unit displayed) (\<lambda>visibility.
       Inr (py_round visibility ROUNDING_PRECISION)))"

definition convert_precipitation :: "env \<Rightarrow> weather_entity \<Rightarrow> rat \<Rightarrow> string \<Rightarrow> rat result" where
  "convert_precipitation c self precipitation unit =
     rbind (displayed_unit c self ATTR_WEATHER_PRECIPITATION) (\<lambda>displayed.
     rbind (distance_convert c precipitation unit displayed) (\<lambda>precipitation.
       Inr (py_round precipitation ROUNDING_PRECISION)))"

subsection \<open>\<open>state_attributes\<close>\<close>

text \<open>
  \<open>state_attributes\<close> fills a new dict \<open>data\<close>, one \<open>if\<close> block per attribute. Each block
  is a function from the store to the store; \<open>data\<close> is the reference of the new dict.
\<close>

definition put_temperature :: "env \<Rightarrow> weather_entity \<Rightarrow> nat \<Rightarrow> heap \<Rightarrow> heap result" where
  "put_temperature c self data h =
     (case attr_temperature self of
        None \<Rightarrow> Inr h
      | Some temperature \<Rightarrow>
          rbind (case attr_temperature_unit self of
                   None \<Rightarrow> Inr temperature
                 | Some unit \<Rightarrow> convert_temperature c self temperature unit)
            (\<lambda>temperature. setitem data ATTR_WEATHER_TEMPERATURE (PNum temperature) h))"

definition put_humidity :: "weather_entity \<Rightarrow> nat \<Rightarrow> heap \<Rightarrow> heap result" where
  "put_humidity self data h =
     (case attr_humidity self of
        None \<Rightarrow> Inr h
      | Some humidity \<Rightarrow> setitem data ATTR_WEATHER_HUMIDITY (PNum (py_round_int humidity)) h)"

definition put_ozone :: "weather_entity \<Rightarrow> nat \<Rightarrow> heap \<Rightarrow> heap result" where
  "put_ozone self data h =
     (case attr_ozone self of
        None \<Rightarrow> Inr h
      | Some ozone \<Rightarrow> setitem data ATTR_WEATHER_OZONE (PNum ozone) h)"

definition put_pressure :: "env \<Rightarrow> weather_entity \<Rightarrow> nat \<Rightarrow> heap \<Rightarrow> heap result" where
  "put_pressure c self data h =
     (case attr_pressure self of
        None \<Rightarrow> Inr h
      | Some pressure \<Rightarrow>
          rbind (case attr_pressure_unit self of
                   None \<Rightarrow> Inr pressure
                 | Some unit \<Rightarrow> convert_pressure c self pressure unit)
            (\<lambda>pressure.
               setitem data ATTR_WEATHER_PRESSURE (PNum (py_round pressure ROUNDING_PRECISION)) h))"

definition put_wind_bearing :: "weather_entity \<Rightarrow> nat \<Rightarrow> heap \<Rightarrow> heap result" where
  "put_wind_bearing self data h =
     (if attr_wind_bearing self \<noteq> PNone
      then setitem data ATTR_WEATHER_WIND_BEARING (attr_wind_bearing self) h
      else Inr h)"

definition put_wind_speed :: "env \<Rightarrow> weather_entity \<Rightarrow> nat \<Rightarrow> heap \<Rightarrow> heap result" where
  "put_wind_speed c self data h =
     (case attr_wind_speed self of
        None \<Rightarrow> Inr h
      | Some wind_speed \<Rightarrow>
          rbind (case attr_wind_speed_unit self of
                   None \<Rightarrow> Inr wind_speed
                 | Some unit \<Rightarrow> convert_wind_speed c self wind_speed unit)
            (\<lambda>wind_speed. setitem data ATTR_WEATHER_WIND_SPEED (PNum wind_speed) h))"

definition put_visibility :: "env \<Rightarrow> weather_entity \<Rightarrow> nat \<Rightarrow> heap \<Rightarrow> heap result" where
  "put_visibility c self data h =
     (case attr_visibility self of
        None \<Rightarrow> Inr h
      | Some visibility \<Rightarrow>
          rbind (case attr_visibility_unit self of
                   None \<Rightarrow> Inr visibility
                 | Some unit \<Rightarrow>
                     rbind (displayed_unit c self ATTR_WEATHER_VISIBILITY) (\<lambda>displayed.
                     rbind (distance_convert c visibility unit displayed) (\<lambda>v.
                       Inr (py_round v ROUNDING_PRECISION))))
            (\<lambda>visibility. setitem data ATTR_WEATHER_VISIBILITY (PNum visibility) h))"

text \<open>
  The five conversions of the loop body have one shape: read the field of the copy with
  \<open>.get\<close>; when it is not \<open>None\<close> and the native unit is not \<open>None\<close>, store the converted
  value under the same key. \<open>convert\<close> is the entity's \<open>convert_*\<close> method.
\<close>

definition convert_field ::
  "(rat \<Rightarrow> string \<Rightarrow> rat result) \<Rightarrow> string option \<Rightarrow> nat \<Rightarrow> string \<Rightarrow> heap \<Rightarrow> heap result" where
  "convert_field convert native_unit forecast_entry key h =
     rbind (getitem_get h forecast_entry key) (\<lambda>v.
       if v \<noteq> PNone then
         (case native_unit of
            None \<Rightarrow> Inr h
          | Some unit \<Rightarrow>
              rbind (as_number v) (\<lambda>x.
              rbind (convert x unit) (\<lambda>y. setitem forecast_entry key (PNum y) h)))
       else Inr h)"

definition forecast_body :: "env \<Rightarrow> weather_entity \<Rightarrow> nat \<Rightarrow> pyval \<Rightarrow> heap \<Rightarrow> heap result" where
  \<comment> \<open>One turn of the loop: \<open>item\<close> is the stored entry, \<open>forecast\<close> the new list.\<close>
  "forecast_body c self forecast item h =
     (case item of
        PRef a \<Rightarrow>
          rbind (get_dict h a) (\<lambda>d.
            let (forecast_entry, h) = alloc (ODict d) h in
            rbind (convert_field (convert_temperature c self) (attr_temperature_unit self)
                     forecast_entry ATTR_FORECAST_TEMP h) (\<lambda>h.
            rbind (convert_field (convert_temperature c self) (attr_temperature_unit self)
                     forecast_entry ATTR_FORECAST_TEMP_LOW h) (\<lambda>h.
            rbind (convert_field (convert_pressure c self) (attr_pressure_unit self)
                     forecast_entry ATTR_FORECAST_PRESSURE h) (\<lambda>h.
            rbind (convert_field (convert_wind_speed c self) (attr_wind_speed_unit self)
                     forecast_entry ATTR_FORECAST_WIND_SPEED h) (\<lambda>h.
            rbind (convert_field (convert_precipitation c self) (attr_precipitation_unit self)
                     forecast_entry ATTR_FORECAST_PRECIPITATION h) (\<lambda>h.
              list_append forecast (PRef forecast_entry) h))))))
      | _ \<Rightarrow> Inl TypeError)"

fun forecast_loop :: "env \<Rightarrow> weather_entity \<Rightarrow> nat \<Rightarrow> pyval list \<Rightarrow> heap \<Rightarrow> heap result" where
  "forecast_loop c self forecast [] h = Inr h"
| "forecast_loop c self forecast (item # items) h =
     rbind (forecast_body c self forecast item h) (forecast_loop c self forecast items)"

definition put_forecast :: "env \<Rightarrow> weather_entity \<Rightarrow> nat \<Rightarrow> heap \<Rightarrow> heap result" where
  \<comment> \<open>\<open>stored\<close> is \<open>self.forecast\<close>; its items are read when the loop starts, and
      \<open>forecast_loop_frame\<close> shows that the loop never writes to the stored list.\<close>
  "put_forecast c self data h =
     (case attr_forecast self of
        None \<Rightarrow> Inr h
      | Some stored \<Rightarrow>
          rbind (get_list h stored) (\<lambda>items.
            let (forecast, h) = alloc (OList []) h in
            rbind (forecast_loop c self forecast items h) (\<lambda>h.
              setitem data ATTR_FORECAST (PRef forecast) h)))"

definition state_attributes :: "env \<Rightarrow> weather_entity \<Rightarrow> heap \<Rightarrow> (nat \<times> heap) result" where
  \<comment> \<open>The result is the reference of \<open>data\<close> and the store after the call.\<close>
  "state_attributes c self h =
     (let (data, h) = alloc (ODict []) h in
      rbind (put_temperature c self data h) (\<lambda>h.
      rbind (put_humidity self data h) (\<lambda>h.
      rbind (put_ozone self data h) (\<lambda>h.
      rbind (put_pressure c self data h) (\<lambda>h.
      rbind (put_wind_bearing self data h) (\<lambda>h.
      rbind (put_wind_speed c self data h) (\<lambda>h.
      rbind (put_visibility c self data h) (\<lambda>h.
      rbind (put_forecast c self data h) (\<lambda>h. Inr (data, h))))))))))"

definition attribute :: "heap \<Rightarrow> nat \<Rightarrow> string \<Rightarrow> pyval" where
  \<comment> \<open>What \<open>.get(k)\<close> reads in the dict at reference \<open>a\<close>.\<close>
  "attribute h a k = (case h ! a of ODict d \<Rightarrow> dict_get d k | OList _ \<Rightarrow> PNone)"

subsection \<open>The loop body on the content of one entry\<close>

text \<open>
  The same loop body, read as a function from the content of the stored entry to the
  content of its converted copy. \<open>forecast_body_value\<close> below proves that the loop on
  the store computes exactly this.
\<close>

definition converted_field ::
  "(rat \<Rightarrow> string \<Rightarrow> rat result) \<Rightarrow> string option \<Rightarrow> string \<Rightarrow> pydict \<Rightarrow> pydict result" where
  "converted_field convert native_unit key d =
     (let v = dict_get d key in
      if v \<noteq> PNone then
        (case native_unit of
           None \<Rightarrow> Inr d
         | Some unit \<Rightarrow>
             rbind (as_number v) (\<lambda>x.
             rbind (convert x unit) (\<lambda>y. Inr (dict_set key (PNum y) d))))
      else Inr d)"

definition converted_entry :: "env \<Rightarrow> weather_entity \<Rightarrow> pydict \<Rightarrow> pydict result" where
  "converted_entry c self d =
     rbind (converted_field (convert_temperature c self) (attr_temperature_unit self)
              ATTR_FORECAST_TEMP d) (\<lambda>d.
     rbind (converted_field (convert_temperature c self) (attr_temperature_unit self)
              ATTR_FORECAST_TEMP_LOW d) (\<lambda>d.
     rbind (converted_field (convert_pressure c self) (attr_pressure_unit self)
              ATTR_FORECAST_PRESSURE d) (\<lambda>d.
     rbind (converted_field (convert_wind_speed c self) (attr_wind_speed_unit self)
              ATTR_FORECAST_WIND_SPEED d) (\<lambda>d.
     converted_field (convert_precipitation c self) (attr_precipitation_unit self)
              ATTR_FORECAST_PRECIPITATION d))))"

fun map_result :: "('a \<Rightarrow> 'b result) \<Rightarrow> 'a list \<Rightarrow> 'b list result" where
  \<comment> \<open>a function that may raise, applied from left to right: the first error ends it.\<close>
  "map_result f [] = Inr []"
| "map_result f (x # xs) = rbind (f x) (\<lambda>y. rbind (map_result f xs) (\<lambda>ys. Inr (y # ys)))"

definition stored_entry :: "heap \<Rightarrow> pyval \<Rightarrow> pydict result" where
  \<comment> \<open>the content of the dict that an item of the stored list refers to.\<close>
  "stored_entry h item = (case item of PRef a \<Rightarrow> get_dict h a | _ \<Rightarrow> Inl TypeError)"

definition in_store :: "heap \<Rightarrow> pyval \<Rightarrow> bool" where
  \<comment> \<open>a value that is a reference refers to an object of the store.\<close>
  "in_store h v = (case v of PRef a \<Rightarrow> a < length h | _ \<Rightarrow> True)"

definition converted_value ::
  "(rat \<Rightarrow> string \<Rightarrow> rat result) \<Rightarrow> string option \<Rightarrow> pyval \<Rightarrow> pyval result" where
  \<comment> \<open>the value of one field after the loop body, from its value before.\<close>
  "converted_value convert native_unit v =
     (if v \<noteq> PNone then
        (case native_unit of
           None \<Rightarrow> Inr v
         | Some unit \<Rightarrow> rbind (as_number v) (\<lambda>x. rbind (convert x unit) (\<lambda>y. Inr (PNum y))))
      else Inr v)"

definition forecast_get :: "heap \<Rightarrow> nat \<Rightarrow> nat \<Rightarrow> string \<Rightarrow> pyval result" where
  \<comment> \<open>What \<open>forecast[i].get(k)\<close> reads, for the list object at reference \<open>l\<close>.\<close>
  "forecast_get h l i k =
     rbind (get_list h l) (\<lambda>items.
       if i < length items then rbind (stored_entry h (items ! i)) (\<lambda>d. Inr (dict_get d k))
       else Inl IndexError)"

definition stored_refs_ok :: "weather_entity \<Rightarrow> heap \<Rightarrow> bool" where
  \<comment> \<open>The items of the stored forecast list refer to objects of the store, as every
      reference of a Python run does.\<close>
  "stored_refs_ok self h =
     (case attr_forecast self of
        None \<Rightarrow> True
      | Some stored \<Rightarrow>
          (case get_list h stored of Inl _ \<Rightarrow> True | Inr items \<Rightarrow> list_all (in_store h) items))"

definition sets_key :: "string \<Rightarrow> pydict \<Rightarrow> pydict \<Rightarrow> bool" where
  \<comment> \<open>\<open>d'\<close> is \<open>d\<close>, or \<open>d\<close> after one assignment to the key \<open>k\<close>.\<close>
  "sets_key k d d' \<longleftrightarrow> d' = d \<or> (\<exists>v. d' = dict_set k v d)"

definition grows :: "nat \<Rightarrow> heap \<Rightarrow> heap \<Rightarrow> bool" where
  \<comment> \<open>from \<open>h\<close> to \<open>h'\<close> objects are added, and no object of \<open>h\<close> changes but the one
      at reference \<open>a\<close>.\<close>
  "grows a h h' \<longleftrightarrow> length h \<le> length h' \<and> (\<forall>i<length h. i \<noteq> a \<longrightarrow> h' ! i = h ! i)"

subsection \<open>Display-unit resolution as the specification words it\<close>

definition weather_quantities :: "string list" where
  "weather_quantities =
     [ATTR_WEATHER_TEMPERATURE, ATTR_WEATHER_PRESSURE, ATTR_WEATHER_VISIBILITY,
      ATTR_WEATHER_WIND_SPEED, ATTR_WEATHER_PRECIPITATION]"

definition resolve_unit ::
  "string \<Rightarrow> string list \<Rightarrow> (string \<times> string option) list option \<Rightarrow> string \<Rightarrow> string" where
  \<comment> \<open>Start from the system unit; an override map that is present, contains the quantity
      and gives a unit of the valid set replaces it; otherwise the system unit stays.\<close>
  "resolve_unit system_unit valid overrides quantity =
     (case overrides of
        None \<Rightarrow> system_unit
      | Some m \<Rightarrow>
          (case map_of m quantity of
             Some (Some u) \<Rightarrow> if u \<in> set valid then u else system_unit
           | _ \<Rightarrow> system_unit))"

definition units_nonempty :: "env \<Rightarrow> bool" where
  \<comment> \<open>no valid unit is the empty string (a condition on the imported tables).\<close>
  "units_nonempty c = list_all (\<lambda>(q, valid). [] \<notin> set valid) (VALID_UNITS c)"

subsection \<open>The helpers on equal units\<close>

text \<open>
  Modelled from the spec: the \<open>convert\<close> helpers of \<open>homeassistant.util\<close> are not among the
  sources. The specification states of them that converting a value from a unit to the
  same unit is the identity; \<open>same_unit_identity convert unit\<close> says so of one helper at
  one unit.
\<close>

definition same_unit_identity :: "(rat \<Rightarrow> string \<Rightarrow> string \<Rightarrow> rat result) \<Rightarrow> string \<Rightarrow> bool" where
  \<comment> \<open>Modelled from the spec: the helper is absent; on equal units it returns its input.\<close>
  "same_unit_identity convert unit \<longleftrightarrow> (\<forall>x. convert x unit unit = Inr x)"

section \<open>The TED sensors\<close>

datatype tedval = TNone | TNum rat | TStr string | TDict "(string \<times> tedval) list"

definition ted_get :: "tedval \<Rightarrow> string \<Rightarrow> tedval result" where
  \<comment> \<open>\<open>obj.get(k)\<close>: only a dict has the method.\<close>
  "ted_get obj k =
     (case obj of
        TDict d \<Rightarrow> (case map_of d k of None \<Rightarrow> Inr TNone | Some v \<Rightarrow> Inr v)
      | _ \<Rightarrow> Inl AttributeError)"

definition ted_getitem :: "tedval \<Rightarrow> string \<Rightarrow> tedval result" where
  \<comment> \<open>\<open>obj[k]\<close>.\<close>
  "ted_getitem obj k =
     (case obj of
        TDict d \<Rightarrow> (case map_of d k of None \<Rightarrow> Inl KeyError | Some v \<Rightarrow> Inr v)
      | _ \<Rightarrow> Inl TypeError)"

definition TedSensor_state :: "tedval \<Rightarrow> string \<Rightarrow> tedval result" where
  \<comment> \<open>\<open>data\<close> is \<open>self.coordinator.data\<close>, \<open>key\<close> is \<open>self.entity_description.key\<close>.\<close>
  "TedSensor_state data key = ted_get data key"

definition TedBreakdownSensor_state ::
  "tedval \<Rightarrow> string \<Rightarrow> string \<Rightarrow> string \<Rightarrow> tedval result" where
  \<comment> \<open>\<open>grp\<close> is \<open>self._group\<close>, \<open>position\<close> is \<open>self._position\<close>.\<close>
  "TedBreakdownSensor_state data grp position key =
     rbind (ted_getitem data grp) (\<lambda>g. rbind (ted_get g position) (\<lambda>p. ted_get p key))"

section \<open>Example inputs\<close>

text \<open>
  A concrete instance of the imported names and helpers (a metric system whose helpers
  convert between the few units used here and raise \<open>ValueError\<close> otherwise), and
  entities and stores on which the functions above are evaluated.
\<close>

definition example_env :: env where
  "example_env =
     \<lparr>TEMP_CELSIUS = ''C'', TEMP_FAHRENHEIT = ''F'',
      PRESSURE_HPA = ''hPa'', PRESSURE_INHG = ''inHg'',
      LENGTH_KILOMETERS = ''km'', LENGTH_MILES = ''mi'',
      LENGTH_MILLIMETERS = ''mm'', LENGTH_INCHES = ''in'',
      SPEED_KILOMETERS_PER_HOUR = ''km/h'', SPEED_MILES_PER_HOUR = ''mph'',
      SPEED_METERS_PER_SECOND = ''m/s'',
      temperature_VALID_UNITS = [''C'', ''F'', ''K''],
      pressure_VALID_UNITS = [''Pa'', ''hPa'', ''inHg''],
      temperature_convert = (\<lambda>x from_unit to_unit.
         if from_unit = to_unit then Inr x
         else if from_unit = ''F'' \<and> to_unit = ''C'' then Inr ((x - 32) * 5 / 9)
         else Inl ValueError),
      pressure_convert = (\<lambda>x from_unit to_unit.
         if from_unit = to_unit then Inr x
         else if from_unit = ''hPa'' \<and> to_unit = ''inHg'' then Inr (x * 2953 / 100000)
         else Inl ValueError),
      speed_convert = (\<lambda>x from_unit to_unit.
         if from_unit = to_unit then Inr x
         else if from_unit = ''m/s'' \<and> to_unit = ''km/h'' then Inr (x * 36 / 10)
         else Inl ValueError),
      distance_convert = (\<lambda>x from_unit to_unit.
         if from_unit = to_unit then Inr x
         else if from_unit = ''mi'' \<and> to_unit = ''km'' then Inr (x * 1609344 / 1000000)
         else Inl ValueError)\<rparr>"

definition example_entity :: weather_entity where
  "example_entity =
     \<lparr>is_metric = True, attr_forecast = Some 0,
      attr_humidity = Some (605 / 10), attr_ozone = Some (3001 / 10),
      attr_pressure = Some 1000, attr_pressure_unit = Some ''hPa'',
      attr_temperature_unit = Some ''F'', attr_temperature = Some 38,
      attr_visibility = Some 10, attr_visibility_unit = Some ''mi'',
      attr_precipitation_unit = Some ''mm'',
      attr_wind_bearing = PStr ''NW'',
      attr_wind_speed = Some 10, attr_wind_speed_unit = Some ''m/s'',
      option_units_of_measurement = Some [(''pressure'', Some ''inHg'')]\<rparr>"

definition example_heap :: heap where
  "example_heap =
     [OList [PRef 1, PRef 2],
      ODict [(''condition'', PStr ''sunny''), (''temperature'', PNum 38), (''templow'', PNum 32),
             (''pressure'', PNone), (''precipitation'', PNum (1234 / 1000))],
      ODict [(''temperature'', PNone), (''wind_speed'', PNum 10)]]"

definition example_result :: heap where
  "example_result =
     example_heap @
     [ODict [(''temperature'', PNum (33 / 10)), (''humidity'', PNum 60),
             (''ozone'', PNum (3001 / 10)), (''pressure'', PNum (2953 / 100)),
             (''wind_bearing'', PStr ''NW''), (''wind_speed'', PNum 36),
             (''visibility'', PNum (1609 / 100)), (''forecast'', PRef 4)],
      OList [PRef 5, PRef 6],
      ODict [(''condition'', PStr ''sunny''), (''temperature'', PNum (33 / 10)),
             (''templow'', PNum 0), (''pressure'', PNone),
             (''precipitation'', PNum (123 / 100))],
      ODict [(''temperature'', PNone), (''wind_speed'', PNum 36)]]"

definition example_bare :: weather_entity where
  "example_bare =
     \<lparr>is_metric = True, attr_forecast = None,
      attr_humidity = None, attr_ozone = None,
      attr_pressure = Some (1000126 / 1000), attr_pressure_unit = None,
      attr_temperature_unit = None, attr_temperature = Some (20126 / 1000),
      attr_visibility = Some (10126 / 1000), attr_visibility_unit = None,
      attr_precipitation_unit = None,
      attr_wind_bearing = PNone,
      attr_wind_speed = Some (5126 / 1000), attr_wind_speed_unit = None,
      option_units_of_measurement = None\<rparr>"

definition example_bare_result :: heap where
  "example_bare_result =
     [ODict [(''temperature'', PNum (20126 / 1000)), (''pressure'', PNum (100013 / 100)),
             (''wind_speed'', PNum (5126 / 1000)), (''visibility'', PNum (10126 / 1000))]]"

definition failing_env :: env where
  "failing_env =
     example_env
       \<lparr>temperature_convert := (\<lambda>x from_unit to_unit. Inl ValueError),
        pressure_convert := (\<lambda>x from_unit to_unit. Inl ValueError),
        speed_convert := (\<lambda>x from_unit to_unit. Inl ValueError),
        distance_convert := (\<lambda>x from_unit to_unit. Inl ValueError)\<rparr>"

definition example_null :: weather_entity where
  "example_null =
     \<lparr>is_metric = True, attr_forecast = Some 0,
      attr_humidity = None, attr_ozone = None,
      attr_pressure = None, attr_pressure_unit = Some ''hPa'',
      attr_temperature_unit = Some ''F'', attr_temperature = None,
      attr_visibility = None, attr_visibility_unit = Some ''mi'',
      attr_precipitation_unit = Some ''mm'',
      attr_wind_bearing = PNone,
      attr_wind_speed = None, attr_wind_speed_unit = Some ''m/s'',
      option_units_of_measurement = None\<rparr>"

definition example_null_entry :: pydict where
  "example_null_entry =
     [(''condition'', PStr ''sunny''), (''temperature'', PNone), (''templow'', PNone),
      (''pressure'', PNone), (''wind_speed'', PNone), (''precipitation'', PNone)]"

definition example_null_heap :: heap where
  "example_null_heap = [OList [PRef 1], ODict example_null_entry]"

definition example_null_result :: heap where
  "example_null_result =
     example_null_heap @
     [ODict [(''forecast'', PRef 3)], OList [PRef 4], ODict example_null_entry]"

definition example_same :: weather_entity where
  "example_same =
     \<lparr>is_metric = True, attr_forecast = None,
      attr_humidity = None, attr_ozone = None,
      attr_pressure = Some (1013125 / 1000), attr_pressure_unit = Some ''hPa'',
      attr_temperature_unit = Some ''C'', attr_temperature = Some (2125 / 100),
      attr_visibility = Some (1025 / 100), attr_visibility_unit = Some ''km'',
      attr_precipitation_unit = Some ''mm'',
      attr_wind_bearing = PNone,
      attr_wind_speed = Some (105 / 10), attr_wind_speed_unit = Some ''km/h'',
      option_units_of_measurement = None\<rparr>"

definition example_same_result :: heap where
  "example_same_result =
     [ODict [(''temperature'', PNum (212 / 10)), (''pressure'', PNum (101312 / 100)),
             (''wind_speed'', PNum (105 / 10)), (''visibility'', PNum (1025 / 100))]]"

section \<open>Lemmas on the store and on the blocks of \<open>state_attributes\<close>\<close>

lemmas attr_defs =
  ATTR_FORECAST_def ATTR_FORECAST_PRECIPITATION_def ATTR_FORECAST_PRESSURE_def
  ATTR_FORECAST_TEMP_def ATTR_FORECAST_TEMP_LOW_def ATTR_FORECAST_WIND_SPEED_def
  ATTR_WEATHER_HUMIDITY_def ATTR_WEATHER_OZONE_def ATTR_WEATHER_PRESSURE_def
  ATTR_WEATHER_TEMPERATURE_def ATTR_WEATHER_VISIBILITY_def ATTR_WEATHER_WIND_BEARING_def
  ATTR_WEATHER_WIND_SPEED_def ATTR_WEATHER_PRECIPITATION_def

lemma rbind_Inr_iff: "rbind m f = Inr y \<longleftrightarrow> (\<exists>x. m = Inr x \<and> f x = Inr y)"
  by (cases m) (simp_all add: rbind_def)

lemma rbind_simps [simp]: "rbind (Inr x) f = f x" "rbind (Inl e) f = Inl e"
  by (simp_all add: rbind_def)

lemma get_dict_Inr_iff: "get_dict h a = Inr d \<longleftrightarrow> a < length h \<and> h ! a = ODict d"
  by (auto simp: get_dict_def split: pyobj.splits)

lemma get_list_Inr_iff: "get_list h a = Inr xs \<longleftrightarrow> a < length h \<and> h ! a = OList xs"
  by (auto simp: get_list_def split: pyobj.splits)

lemma dict_get_dict_set: "dict_get (dict_set k v d) k' = (if k' = k then v else dict_get d k')"
  by (induction d) (auto simp: dict_get_def)

lemma dict_set_keys:
  "map fst (dict_set k v d) = (if k \<in> fst ` set d then map fst d else map fst d @ [k])"
  by (induction d) auto

lemma dict_get_keys: "dict_get d k \<noteq> PNone \<Longrightarrow> k \<in> fst ` set d"
  by (force simp: dict_get_def split: option.splits dest: map_of_SomeD)

lemma setitem_Inr_iff:
  "setitem a k v h = Inr h' \<longleftrightarrow>
     (\<exists>d. a < length h \<and> h ! a = ODict d \<and> h' = h[a := ODict (dict_set k v d)])"
  by (auto simp: setitem_def rbind_Inr_iff get_dict_Inr_iff)

lemma list_append_Inr_iff:
  "list_append a v h = Inr h' \<longleftrightarrow>
     (\<exists>xs. a < length h \<and> h ! a = OList xs \<and> h' = h[a := OList (xs @ [v])])"
  by (auto simp: list_append_def rbind_Inr_iff get_list_Inr_iff)

lemma setitem_fresh:
  "setitem (length h0) k v (h0 @ [ODict d]) = Inr (h0 @ [ODict (dict_set k v d)])"
  by (simp add: setitem_def get_dict_def)

lemma sets_key_refl: "sets_key k d d"
  by (simp add: sets_key_def)

lemma sets_key_set: "sets_key k d (dict_set k v d)"
  by (auto simp: sets_key_def)

lemma sets_key_other: "sets_key k d d' \<Longrightarrow> k' \<noteq> k \<Longrightarrow> dict_get d' k' = dict_get d k'"
  by (auto simp: sets_key_def dict_get_dict_set)

lemma put_temperature_fresh:
  "put_temperature c self (length h0) (h0 @ [ODict d]) = Inr h' \<Longrightarrow>
     \<exists>d'. h' = h0 @ [ODict d'] \<and> sets_key ATTR_WEATHER_TEMPERATURE d d'"
  by (auto simp: put_temperature_def rbind_Inr_iff setitem_fresh sets_key_refl sets_key_set
      split: option.splits)

lemma put_humidity_fresh:
  "put_humidity self (length h0) (h0 @ [ODict d]) = Inr h' \<Longrightarrow>
     \<exists>d'. h' = h0 @ [ODict d'] \<and> sets_key ATTR_WEATHER_HUMIDITY d d'"
  by (auto simp: put_humidity_def rbind_Inr_iff setitem_fresh sets_key_refl sets_key_set
      split: option.splits)

lemma put_ozone_fresh:
  "put_ozone self (length h0) (h0 @ [ODict d]) = Inr h' \<Longrightarrow>
     \<exists>d'. h' = h0 @ [ODict d'] \<and> sets_key ATTR_WEATHER_OZONE d d'"
  by (auto simp: put_ozone_def rbind_Inr_iff setitem_fresh sets_key_refl sets_key_set
      split: option.splits)

lemma put_pressure_fresh:
  "put_pressure c self (length h0) (h0 @ [ODict d]) = Inr h' \<Longrightarrow>
     \<exists>d'. h' = h0 @ [ODict d'] \<and> sets_key ATTR_WEATHER_PRESSURE d d'"
  by (auto simp: put_pressure_def rbind_Inr_iff setitem_fresh sets_key_refl sets_key_set
      split: option.splits)

lemma put_wind_bearing_fresh:
  "put_wind_bearing self (length h0) (h0 @ [ODict d]) = Inr h' \<Longrightarrow>
     \<exists>d'. h' = h0 @ [ODict d'] \<and> sets_key ATTR_WEATHER_WIND_BEARING d d'"
  by (auto simp: put_wind_bearing_def rbind_Inr_iff setitem_fresh sets_key_refl sets_key_set
      split: if_splits)

lemma put_wind_speed_fresh:
  "put_wind_speed c self (length h0) (h0 @ [ODict d]) = Inr h' \<Longrightarrow>
     \<exists>d'. h' = h0 @ [ODict d'] \<and> sets_key ATTR_WEATHER_WIND_SPEED d d'"
  by (auto simp: put_wind_speed_def rbind_Inr_iff setitem_fresh sets_key_refl sets_key_set
      split: option.splits)

lemma put_visibility_fresh:
  "put_visibility c self (length h0) (h0 @ [ODict d]) = Inr h' \<Longrightarrow>
     \<exists>d'. h' = h0 @ [ODict d'] \<and> sets_key ATTR_WEATHER_VISIBILITY d d'"
  by (auto simp: put_visibility_def rbind_Inr_iff setitem_fresh sets_key_refl sets_key_set
      split: option.splits)

lemma grows_refl: "grows a h h"
  by (simp add: grows_def)

lemma grows_trans: "grows a h h' \<Longrightarrow> grows a h' h'' \<Longrightarrow> grows a h h''"
  by (auto simp: grows_def)

lemma convert_field_frame:
  "convert_field conv u fe key h = Inr h' \<Longrightarrow>
     length h' = length h \<and> (\<forall>i. i \<noteq> fe \<longrightarrow> h' ! i = h ! i)"
  by (auto simp: convert_field_def rbind_Inr_iff setitem_Inr_iff split: if_splits option.splits)

lemma forecast_body_frame:
  assumes "forecast_body c self forecast item h = Inr h'"
  shows "length h' = Suc (length h) \<and> (\<forall>i<length h. i \<noteq> forecast \<longrightarrow> h' ! i = h ! i)"
proof -
  from assms obtain a d h1 h2 h3 h4 h5 where
    "item = PRef a" "get_dict h a = Inr d"
    and s1: "convert_field (convert_temperature c self) (attr_temperature_unit self)
          (length h) ATTR_FORECAST_TEMP (h @ [ODict d]) = Inr h1"
    and s2: "convert_field (convert_temperature c self) (attr_temperature_unit self)
          (length h) ATTR_FORECAST_TEMP_LOW h1 = Inr h2"
    and s3: "convert_field (convert_pressure c self) (attr_pressure_unit self)
          (length h) ATTR_FORECAST_PRESSURE h2 = Inr h3"
    and s4: "convert_field (convert_wind_speed c self) (attr_wind_speed_unit self)
          (length h) ATTR_FORECAST_WIND_SPEED h3 = Inr h4"
    and s5: "convert_field (convert_precipitation c self) (attr_precipitation_unit self)
          (length h) ATTR_FORECAST_PRECIPITATION h4 = Inr h5"
    and s6: "list_append forecast (PRef (length h)) h5 = Inr h'"
    by (auto simp: forecast_body_def alloc_def rbind_Inr_iff split: pyval.splits)
  note f = convert_field_frame [OF s1] convert_field_frame [OF s2] convert_field_frame [OF s3]
    convert_field_frame [OF s4] convert_field_frame [OF s5]
  from s6 obtain xs where l: "h' = h5[forecast := OList (xs @ [PRef (length h)])]"
    by (auto simp: list_append_Inr_iff)
  from f l show ?thesis
    by (auto simp: nth_append)
qed

lemma forecast_loop_frame:
  "forecast_loop c self forecast items h = Inr h' \<Longrightarrow> grows forecast h h'"
proof (induction items arbitrary: h)
  case Nil
  then show ?case by (simp add: grows_refl)
next
  case (Cons item items)
  from Cons.prems obtain h1 where
    b: "forecast_body c self forecast item h = Inr h1"
    and r: "forecast_loop c self forecast items h1 = Inr h'"
    by (auto simp: rbind_Inr_iff)
  from forecast_body_frame [OF b] have "grows forecast h h1"
    by (simp add: grows_def)
  with Cons.IH [OF r] show ?case
    by (blast intro: grows_trans)
qed

lemma convert_field_value:
  assumes "get_dict h fe = Inr d"
  shows "convert_field conv u fe key h =
     rbind (converted_field conv u key d) (\<lambda>d'. Inr (h[fe := ODict d']))"
proof -
  from assms have "h[fe := ODict d] = h"
    by (simp add: get_dict_Inr_iff list_update_same_conv)
  with assms show ?thesis
    by (cases "as_number (dict_get d key)")
      (auto simp: convert_field_def converted_field_def getitem_get_def setitem_def Let_def
        rbind_def split: option.splits sum.splits)
qed

lemma get_dict_fresh: "get_dict (h @ [ODict d]) (length h) = Inr d"
  by (simp add: get_dict_def)

lemma convert_field_fresh:
  "convert_field conv u (length h) key (h @ [ODict d]) =
     rbind (converted_field conv u key d) (\<lambda>d'. Inr (h @ [ODict d']))"
  by (simp add: convert_field_value [OF get_dict_fresh])

lemma forecast_body_value:
  assumes "get_dict h a = Inr d"
  shows "forecast_body c self forecast (PRef a) h =
     rbind (converted_entry c self d) (\<lambda>d'.
       list_append forecast (PRef (length h)) (h @ [ODict d']))"
  using assms
  by (simp add: forecast_body_def alloc_def converted_entry_def convert_field_fresh
      rbind_def split: sum.splits)

lemma forecast_body_eq:
  "forecast_body c self forecast item h =
     rbind (stored_entry h item) (\<lambda>d. rbind (converted_entry c self d) (\<lambda>d'.
       list_append forecast (PRef (length h)) (h @ [ODict d'])))"
proof (cases "stored_entry h item")
  case (Inl e)
  then show ?thesis
    by (cases item) (simp_all add: stored_entry_def forecast_body_def)
next
  case (Inr d)
  then obtain a where "item = PRef a" "get_dict h a = Inr d"
    by (cases item) (simp_all add: stored_entry_def)
  with Inr show ?thesis
    by (simp add: forecast_body_value)
qed

lemma list_append_old:
  assumes "get_list h forecast = Inr out"
  shows "list_append forecast v (h @ [obj]) = Inr (h[forecast := OList (out @ [v])] @ [obj])"
  using assms
  by (simp add: list_append_def get_list_def nth_append list_update_append1
      split: if_splits pyobj.splits)

lemma map_result_cong:
  "(\<And>x. x \<in> set xs \<Longrightarrow> f x = g x) \<Longrightarrow> map_result f xs = map_result g xs"
  by (induction xs) simp_all

lemma map_result_length: "map_result f xs = Inr ys \<Longrightarrow> length ys = length xs"
  by (induction xs arbitrary: ys) (auto simp: rbind_Inr_iff)

lemma stored_entry_step:
  assumes "get_list h forecast = Inr out" and "in_store h item"
  shows "stored_entry (h[forecast := OList xs] @ [obj]) item = stored_entry h item"
proof (cases item)
  case (PRef a)
  with assms show ?thesis
    by (cases "a = forecast")
      (auto simp: stored_entry_def in_store_def get_dict_def get_list_def nth_append
        split: if_splits pyobj.splits)
qed (simp_all add: stored_entry_def)

lemma in_store_step: "in_store h item \<Longrightarrow> in_store (h[forecast := obj] @ [obj']) item"
  by (cases item) (simp_all add: in_store_def)

lemma forecast_loop_value:
  assumes "get_list h forecast = Inr out" and "list_all (in_store h) items"
  shows "forecast_loop c self forecast items h =
     rbind (map_result (\<lambda>item. rbind (stored_entry h item) (converted_entry c self)) items)
       (\<lambda>ds. Inr (h[forecast := OList (out @ map PRef [length h..<length h + length ds])]
                  @ map ODict ds))"
  using assms
proof (induction items arbitrary: h out)
  case Nil
  then show ?case
    by (auto simp: get_list_Inr_iff list_update_same_conv [THEN iffD2] dest: sym)
next
  case (Cons item items)
  let ?f = "\<lambda>h item. rbind (stored_entry h item) (converted_entry c self)"
  show ?case
  proof (cases "?f h item")
    case (Inl e)
    then have "forecast_body c self forecast item h = Inl e"
      by (cases "stored_entry h item") (simp_all add: forecast_body_eq)
    with Inl show ?thesis by simp
  next
    case (Inr d')
    then obtain a d where item: "item = PRef a" and d: "get_dict h a = Inr d"
      and d': "converted_entry c self d = Inr d'"
      by (cases item) (auto simp: stored_entry_def rbind_Inr_iff)
    let ?h1 = "h[forecast := OList (out @ [PRef (length h)])] @ [ODict d']"
    have body: "forecast_body c self forecast item h = Inr ?h1"
      by (simp add: item forecast_body_value [OF d] d' list_append_old [OF Cons.prems(1)])
    have l1: "get_list ?h1 forecast = Inr (out @ [PRef (length h)])"
      using Cons.prems(1) by (simp add: get_list_Inr_iff nth_append)
    have s1: "list_all (in_store ?h1) items"
      using Cons.prems(2) by (auto simp: list_all_iff intro: in_store_step)
    have same: "map_result (?f ?h1) items = map_result (?f h) items"
      using Cons.prems by (intro map_result_cong) (simp add: stored_entry_step list_all_iff)
    show ?thesis
    proof (cases "map_result (?f h) items")
      case (Inl e)
      with Inr body same show ?thesis
        by (simp add: Cons.IH [OF l1 s1])
    next
      case ds: (Inr ds)
      have upt: "[length h..<length h + length (d' # ds)] =
          length h # [length ?h1..<length ?h1 + length ds]"
        by (simp add: upt_conv_Cons del: upt_Suc)
      have "forecast_loop c self forecast (item # items) h =
          Inr (?h1[forecast := OList ((out @ [PRef (length h)]) @
                 map PRef [length ?h1..<length ?h1 + length ds])] @ map ODict ds)"
        using body same ds by (simp add: Cons.IH [OF l1 s1] del: upt_Suc)
      also have "?h1[forecast := OList ((out @ [PRef (length h)]) @
                 map PRef [length ?h1..<length ?h1 + length ds])] @ map ODict ds =
          h[forecast := OList (out @ map PRef [length h..<length h + length (d' # ds)])] @
            map ODict (d' # ds)"
        using Cons.prems(1) unfolding upt
        by (simp add: get_list_Inr_iff list_update_append1 del: upt_Suc)
      finally show ?thesis
        using Inr ds by simp
    qed
  qed
qed

lemma put_forecast_frame:
  assumes "put_forecast c self (length h0) (h0 @ [ODict d]) = Inr h"
  shows "length h0 < length h \<and> (\<forall>i<length h0. h ! i = h0 ! i) \<and>
     (\<exists>d'. h ! length h0 = ODict d' \<and> sets_key ATTR_FORECAST d d')"
proof (cases "attr_forecast self")
  case None
  with assms show ?thesis
    by (auto simp: put_forecast_def sets_key_refl nth_append)
next
  case (Some stored)
  let ?h1 = "h0 @ [ODict d]"
  from assms Some obtain items h2 where
    loop: "forecast_loop c self (Suc (length h0)) items (?h1 @ [OList []]) = Inr h2"
    and set: "setitem (length h0) ATTR_FORECAST (PRef (Suc (length h0))) h2 = Inr h"
    by (auto simp: put_forecast_def alloc_def rbind_Inr_iff)
  from forecast_loop_frame [OF loop]
  have len: "length h0 + 2 \<le> length h2"
    and old: "\<forall>i<Suc (length h0). h2 ! i = (?h1 @ [OList []]) ! i"
    by (auto simp: grows_def)
  from old have "h2 ! length h0 = ODict d" and "\<forall>i<length h0. h2 ! i = h0 ! i"
    by (auto simp: nth_append)
  with set len show ?thesis
    by (auto simp: setitem_Inr_iff sets_key_set)
qed

lemma state_attributes_blocks:
  assumes "state_attributes c self h0 = Inr (data, h)"
  obtains d1 d2 d3 d4 d5 d6 d7 d8 where
    "data = length h0"
    "put_temperature c self (length h0) (h0 @ [ODict []]) = Inr (h0 @ [ODict d1])"
    "put_humidity self (length h0) (h0 @ [ODict d1]) = Inr (h0 @ [ODict d2])"
    "put_ozone self (length h0) (h0 @ [ODict d2]) = Inr (h0 @ [ODict d3])"
    "put_pressure c self (length h0) (h0 @ [ODict d3]) = Inr (h0 @ [ODict d4])"
    "put_wind_bearing self (length h0) (h0 @ [ODict d4]) = Inr (h0 @ [ODict d5])"
    "put_wind_speed c self (length h0) (h0 @ [ODict d5]) = Inr (h0 @ [ODict d6])"
    "put_visibility c self (length h0) (h0 @ [ODict d6]) = Inr (h0 @ [ODict d7])"
    "put_forecast c self (length h0) (h0 @ [ODict d7]) = Inr h"
    "h ! length h0 = ODict d8"
    "sets_key ATTR_WEATHER_TEMPERATURE [] d1" "sets_key ATTR_WEATHER_HUMIDITY d1 d2"
    "sets_key ATTR_WEATHER_OZONE d2 d3" "sets_key ATTR_WEATHER_PRESSURE d3 d4"
    "sets_key ATTR_WEATHER_WIND_BEARING d4 d5" "sets_key ATTR_WEATHER_WIND_SPEED d5 d6"
    "sets_key ATTR_WEATHER_VISIBILITY d6 d7" "sets_key ATTR_FORECAST d7 d8"
proof -
  from assms obtain h1 h2 h3 h4 h5 h6 h7 where
    data: "data = length h0"
    and b1: "put_temperature c self (length h0) (h0 @ [ODict []]) = Inr h1"
    and b2: "put_humidity self (length h0) h1 = Inr h2"
    and b3: "put_ozone self (length h0) h2 = Inr h3"
    and b4: "put_pressure c self (length h0) h3 = Inr h4"
    and b5: "put_wind_bearing self (length h0) h4 = Inr h5"
    and b6: "put_wind_speed c self (length h0) h5 = Inr h6"
    and b7: "put_visibility c self (length h0) h6 = Inr h7"
    and b8: "put_forecast c self (length h0) h7 = Inr h"
    by (auto simp: state_attributes_def alloc_def rbind_Inr_iff)
  from put_temperature_fresh [OF b1] obtain d1 where
    d1: "h1 = h0 @ [ODict d1]" "sets_key ATTR_WEATHER_TEMPERATURE [] d1" by blast
  from put_humidity_fresh [OF b2 [unfolded d1]] obtain d2 where
    d2: "h2 = h0 @ [ODict d2]" "sets_key ATTR_WEATHER_HUMIDITY d1 d2" by blast
  from put_ozone_fresh [OF b3 [unfolded d2]] obtain d3 where
    d3: "h3 = h0 @ [ODict d3]" "sets_key ATTR_WEATHER_OZONE d2 d3" by blast
  from put_pressure_fresh [OF b4 [unfolded d3]] obtain d4 where
    d4: "h4 = h0 @ [ODict d4]" "sets_key ATTR_WEATHER_PRESSURE d3 d4" by blast
  from put_wind_bearing_fresh [OF b5 [unfolded d4]] obtain d5 where
    d5: "h5 = h0 @ [ODict d5]" "sets_key ATTR_WEATHER_WIND_BEARING d4 d5" by blast
  from put_wind_speed_fresh [OF b6 [unfolded d5]] obtain d6 where
    d6: "h6 = h0 @ [ODict d6]" "sets_key ATTR_WEATHER_WIND_SPEED d5 d6" by blast
  from put_visibility_fresh [OF b7 [unfolded d6]] obtain d7 where
    d7: "h7 = h0 @ [ODict d7]" "sets_key ATTR_WEATHER_VISIBILITY d6 d7" by blast
  from put_forecast_frame [OF b8 [unfolded d7]] obtain d8 where
    d8: "h ! length h0 = ODict d8" "sets_key ATTR_FORECAST d7 d8" by blast
  show thesis
    using that [OF data b1 [unfolded d1] b2 [unfolded d1 d2] b3 [unfolded d2 d3]
        b4 [unfolded d3 d4] b5 [unfolded d4 d5] b6 [unfolded d5 d6] b7 [unfolded d6 d7]
        b8 [unfolded d7] d8(1) d1(2) d2(2) d3(2) d4(2) d5(2) d6(2) d7(2) d8(2)] .
qed


lemma forecast_loop_shape:
  assumes "forecast_loop c self forecast items h = Inr h'" and "get_list h forecast = Inr out"
  shows "\<exists>ds. length ds = length items \<and>
     h' = h[forecast := OList (out @ map PRef [length h..<length h + length ds])] @ map ODict ds"
  using assms
proof (induction items arbitrary: h out)
  case Nil
  then show ?case
    by (auto simp: get_list_Inr_iff list_update_same_conv [THEN iffD2] dest: sym)
next
  case (Cons item items)
  from Cons.prems(1) obtain h1 where
    b: "forecast_body c self forecast item h = Inr h1"
    and r: "forecast_loop c self forecast items h1 = Inr h'"
    by (auto simp: rbind_Inr_iff)
  from b obtain d' where
    "list_append forecast (PRef (length h)) (h @ [ODict d']) = Inr h1"
    by (auto simp: forecast_body_eq rbind_Inr_iff)
  then have h1: "h1 = h[forecast := OList (out @ [PRef (length h)])] @ [ODict d']"
    by (simp add: list_append_old [OF Cons.prems(2)])
  have l1: "get_list h1 forecast = Inr (out @ [PRef (length h)])"
    using Cons.prems(2) by (simp add: h1 get_list_Inr_iff nth_append)
  from Cons.IH [OF r l1] obtain ds where
    ds: "length ds = length items"
    and h': "h' = h1[forecast := OList ((out @ [PRef (length h)]) @
           map PRef [length h1..<length h1 + length ds])] @ map ODict ds"
    by blast
  have upt: "[length h..<length h + length (d' # ds)] =
      length h # [length h1..<length h1 + length ds]"
    by (simp add: h1 upt_conv_Cons del: upt_Suc)
  have "h' = h[forecast := OList (out @ map PRef [length h..<length h + length (d' # ds)])] @
      map ODict (d' # ds)"
    using Cons.prems(2) unfolding upt h'
    by (simp add: h1 get_list_Inr_iff list_update_append1 del: upt_Suc)
  with ds show ?case
    by (intro exI [of _ "d' # ds"]) simp
qed

lemma map_result_nth:
  "map_result f xs = Inr ys \<Longrightarrow> i < length xs \<Longrightarrow> f (xs ! i) = Inr (ys ! i)"
proof (induction xs arbitrary: ys i)
  case Nil
  then show ?case by simp
next
  case (Cons x xs)
  then show ?case
    by (cases i) (auto simp: rbind_Inr_iff)
qed

lemma put_forecast_none:
  "attr_forecast self = None \<Longrightarrow> put_forecast c self data h = Inr h"
  by (simp add: put_forecast_def)

lemma put_forecast_shape:
  assumes "put_forecast c self (length h0) (h0 @ [ODict d]) = Inr h"
    and "attr_forecast self = Some stored"
  shows "\<exists>ds. h = h0 @ [ODict (dict_set ATTR_FORECAST (PRef (Suc (length h0))) d),
        OList (map PRef [length h0 + 2..<length h0 + 2 + length ds])] @ map ODict ds"
proof -
  let ?h1 = "(h0 @ [ODict d]) @ [OList []]"
  from assms obtain items h2 where
    loop: "forecast_loop c self (Suc (length h0)) items ?h1 = Inr h2"
    and set: "setitem (length h0) ATTR_FORECAST (PRef (Suc (length h0))) h2 = Inr h"
    by (auto simp: put_forecast_def alloc_def rbind_Inr_iff)
  have "get_list ?h1 (Suc (length h0)) = Inr []"
    by (simp add: get_list_def nth_append)
  from forecast_loop_shape [OF loop this] obtain ds where
    "h2 = ?h1[Suc (length h0) := OList ([] @ map PRef [length ?h1..<length ?h1 + length ds])] @
       map ODict ds"
    by blast
  then have h2: "h2 = (h0 @ [ODict d]) @
      (OList (map PRef [length h0 + 2..<length h0 + 2 + length ds]) # map ODict ds)"
    by (simp add: list_update_append del: upt_Suc)
  from set have "h = h0 @ [ODict (dict_set ATTR_FORECAST (PRef (Suc (length h0))) d),
        OList (map PRef [length h0 + 2..<length h0 + 2 + length ds])] @ map ODict ds"
    unfolding h2 by (simp add: setitem_def get_dict_def nth_append list_update_append del: upt_Suc)
  then show ?thesis by blast
qed

lemma put_forecast_value:
  assumes "put_forecast c self (length h0) (h0 @ [ODict d]) = Inr h"
    and "attr_forecast self = Some stored"
    and "get_list h0 stored = Inr items" and "list_all (in_store h0) items"
  shows "\<exists>ds. map_result (\<lambda>item. rbind (stored_entry h0 item) (converted_entry c self)) items
        = Inr ds \<and>
     h = h0 @ [ODict (dict_set ATTR_FORECAST (PRef (Suc (length h0))) d),
        OList (map PRef [length h0 + 2..<length h0 + 2 + length ds])] @ map ODict ds"
proof -
  let ?h1 = "(h0 @ [ODict d]) @ [OList []]"
  let ?f = "\<lambda>h item. rbind (stored_entry h item) (converted_entry c self)"
  have items: "get_list (h0 @ [ODict d]) stored = Inr items"
    using assms(3) by (simp add: get_list_Inr_iff nth_append)
  with assms(1,2) obtain h2 where
    loop: "forecast_loop c self (Suc (length h0)) items ?h1 = Inr h2"
    and set: "setitem (length h0) ATTR_FORECAST (PRef (Suc (length h0))) h2 = Inr h"
    by (auto simp: put_forecast_def alloc_def rbind_Inr_iff)
  have l: "get_list ?h1 (Suc (length h0)) = Inr []"
    by (simp add: get_list_def nth_append)
  have s: "list_all (in_store ?h1) items"
    using assms(4) by (auto simp: list_all_iff in_store_def split: pyval.splits)
  have same: "map_result (?f ?h1) items = map_result (?f h0) items"
  proof (intro map_result_cong)
    fix item assume "item \<in> set items"
    with assms(4) have "in_store h0 item" by (simp add: list_all_iff)
    then have "stored_entry ?h1 item = stored_entry h0 item"
      by (cases item) (auto simp: stored_entry_def in_store_def get_dict_def nth_append)
    then show "?f ?h1 item = ?f h0 item" by simp
  qed
  from loop obtain ds where
    ds: "map_result (?f h0) items = Inr ds"
    and "h2 = ?h1[Suc (length h0) := OList ([] @ map PRef [length ?h1..<length ?h1 + length ds])] @
       map ODict ds"
    unfolding forecast_loop_value [OF l s] same by (auto simp: rbind_Inr_iff)
  then have h2: "h2 = (h0 @ [ODict d]) @
      (OList (map PRef [length h0 + 2..<length h0 + 2 + length ds]) # map ODict ds)"
    by (simp add: list_update_append del: upt_Suc)
  from set have "h = h0 @ [ODict (dict_set ATTR_FORECAST (PRef (Suc (length h0))) d),
        OList (map PRef [length h0 + 2..<length h0 + 2 + length ds])] @ map ODict ds"
    unfolding h2 by (simp add: setitem_def get_dict_def nth_append list_update_append del: upt_Suc)
  with ds show ?thesis by blast
qed


subsection \<open>The attributes of the result\<close>

lemma attribute_fresh: "attribute (h0 @ ODict d # rest) (length h0) k = dict_get d k"
  by (simp add: attribute_def)

lemma state_attributes_keys:
  assumes "state_attributes c self h0 = Inr (data, h)"
  obtains d1 d2 d3 d4 d5 d6 d7 where
    "data = length h0"
    "put_temperature c self (length h0) (h0 @ [ODict []]) = Inr (h0 @ [ODict d1])"
    "put_humidity self (length h0) (h0 @ [ODict d1]) = Inr (h0 @ [ODict d2])"
    "put_ozone self (length h0) (h0 @ [ODict d2]) = Inr (h0 @ [ODict d3])"
    "put_pressure c self (length h0) (h0 @ [ODict d3]) = Inr (h0 @ [ODict d4])"
    "put_wind_bearing self (length h0) (h0 @ [ODict d4]) = Inr (h0 @ [ODict d5])"
    "put_wind_speed c self (length h0) (h0 @ [ODict d5]) = Inr (h0 @ [ODict d6])"
    "put_visibility c self (length h0) (h0 @ [ODict d6]) = Inr (h0 @ [ODict d7])"
    "put_forecast c self (length h0) (h0 @ [ODict d7]) = Inr h"
    "attribute h data ATTR_WEATHER_TEMPERATURE = dict_get d1 ATTR_WEATHER_TEMPERATURE"
    "attribute h data ATTR_WEATHER_HUMIDITY = dict_get d2 ATTR_WEATHER_HUMIDITY"
    "attribute h data ATTR_WEATHER_OZONE = dict_get d3 ATTR_WEATHER_OZONE"
    "attribute h data ATTR_WEATHER_PRESSURE = dict_get d4 ATTR_WEATHER_PRESSURE"
    "attribute h data ATTR_WEATHER_WIND_BEARING = dict_get d5 ATTR_WEATHER_WIND_BEARING"
    "attribute h data ATTR_WEATHER_WIND_SPEED = dict_get d6 ATTR_WEATHER_WIND_SPEED"
    "attribute h data ATTR_WEATHER_VISIBILITY = dict_get d7 ATTR_WEATHER_VISIBILITY"
proof -
  from assms obtain d1 d2 d3 d4 d5 d6 d7 d8 where
    b: "data = length h0"
    "put_temperature c self (length h0) (h0 @ [ODict []]) = Inr (h0 @ [ODict d1])"
    "put_humidity self (length h0) (h0 @ [ODict d1]) = Inr (h0 @ [ODict d2])"
    "put_ozone self (length h0) (h0 @ [ODict d2]) = Inr (h0 @ [ODict d3])"
    "put_pressure c self (length h0) (h0 @ [ODict d3]) = Inr (h0 @ [ODict d4])"
    "put_wind_bearing self (length h0) (h0 @ [ODict d4]) = Inr (h0 @ [ODict d5])"
    "put_wind_speed c self (length h0) (h0 @ [ODict d5]) = Inr (h0 @ [ODict d6])"
    "put_visibility c self (length h0) (h0 @ [ODict d6]) = Inr (h0 @ [ODict d7])"
    "put_forecast c self (length h0) (h0 @ [ODict d7]) = Inr h"
    and d8: "h ! length h0 = ODict d8"
    and k: "sets_key ATTR_WEATHER_TEMPERATURE [] d1" "sets_key ATTR_WEATHER_HUMIDITY d1 d2"
    "sets_key ATTR_WEATHER_OZONE d2 d3" "sets_key ATTR_WEATHER_PRESSURE d3 d4"
    "sets_key ATTR_WEATHER_WIND_BEARING d4 d5" "sets_key ATTR_WEATHER_WIND_SPEED d5 d6"
    "sets_key ATTR_WEATHER_VISIBILITY d6 d7" "sets_key ATTR_FORECAST d7 d8"
    by (rule state_attributes_blocks)
  have a: "attribute h data key = dict_get d8 key" for key
    by (simp add: attribute_def b(1) d8)
  note o = sets_key_other
  have "dict_get d8 ATTR_WEATHER_TEMPERATURE = dict_get d1 ATTR_WEATHER_TEMPERATURE"
    by (simp add: o [OF k(8)] o [OF k(7)] o [OF k(6)] o [OF k(5)] o [OF k(4)] o [OF k(3)]
        o [OF k(2)] attr_defs)
  moreover have "dict_get d8 ATTR_WEATHER_HUMIDITY = dict_get d2 ATTR_WEATHER_HUMIDITY"
    by (simp add: o [OF k(8)] o [OF k(7)] o [OF k(6)] o [OF k(5)] o [OF k(4)] o [OF k(3)]
        attr_defs)
  moreover have "dict_get d8 ATTR_WEATHER_OZONE = dict_get d3 ATTR_WEATHER_OZONE"
    by (simp add: o [OF k(8)] o [OF k(7)] o [OF k(6)] o [OF k(5)] o [OF k(4)] attr_defs)
  moreover have "dict_get d8 ATTR_WEATHER_PRESSURE = dict_get d4 ATTR_WEATHER_PRESSURE"
    by (simp add: o [OF k(8)] o [OF k(7)] o [OF k(6)] o [OF k(5)] attr_defs)
  moreover have "dict_get d8 ATTR_WEATHER_WIND_BEARING = dict_get d5 ATTR_WEATHER_WIND_BEARING"
    by (simp add: o [OF k(8)] o [OF k(7)] o [OF k(6)] attr_defs)
  moreover have "dict_get d8 ATTR_WEATHER_WIND_SPEED = dict_get d6 ATTR_WEATHER_WIND_SPEED"
    by (simp add: o [OF k(8)] o [OF k(7)] attr_defs)
  moreover have "dict_get d8 ATTR_WEATHER_VISIBILITY = dict_get d7 ATTR_WEATHER_VISIBILITY"
    by (simp add: o [OF k(8)] attr_defs)
  ultimately show thesis
    using that [OF b] by (simp add: a)
qed

lemma state_attributes_absent:
  assumes "state_attributes c self h0 = Inr (data, h)"
  obtains d1 d2 d3 d4 d5 d6 d7 where
    "put_temperature c self (length h0) (h0 @ [ODict []]) = Inr (h0 @ [ODict d1])"
    "put_humidity self (length h0) (h0 @ [ODict d1]) = Inr (h0 @ [ODict d2])"
    "put_ozone self (length h0) (h0 @ [ODict d2]) = Inr (h0 @ [ODict d3])"
    "put_pressure c self (length h0) (h0 @ [ODict d3]) = Inr (h0 @ [ODict d4])"
    "put_wind_bearing self (length h0) (h0 @ [ODict d4]) = Inr (h0 @ [ODict d5])"
    "put_wind_speed c self (length h0) (h0 @ [ODict d5]) = Inr (h0 @ [ODict d6])"
    "put_visibility c self (length h0) (h0 @ [ODict d6]) = Inr (h0 @ [ODict d7])"
    "attribute h data ATTR_WEATHER_TEMPERATURE = dict_get d1 ATTR_WEATHER_TEMPERATURE"
    "attribute h data ATTR_WEATHER_HUMIDITY = dict_get d2 ATTR_WEATHER_HUMIDITY"
    "attribute h data ATTR_WEATHER_OZONE = dict_get d3 ATTR_WEATHER_OZONE"
    "attribute h data ATTR_WEATHER_PRESSURE = dict_get d4 ATTR_WEATHER_PRESSURE"
    "attribute h data ATTR_WEATHER_WIND_BEARING = dict_get d5 ATTR_WEATHER_WIND_BEARING"
    "attribute h data ATTR_WEATHER_WIND_SPEED = dict_get d6 ATTR_WEATHER_WIND_SPEED"
    "attribute h data ATTR_WEATHER_VISIBILITY = dict_get d7 ATTR_WEATHER_VISIBILITY"
    "dict_get d1 ATTR_WEATHER_HUMIDITY = PNone" "dict_get d2 ATTR_WEATHER_OZONE = PNone"
    "dict_get d3 ATTR_WEATHER_PRESSURE = PNone" "dict_get d4 ATTR_WEATHER_WIND_BEARING = PNone"
    "dict_get d5 ATTR_WEATHER_WIND_SPEED = PNone" "dict_get d6 ATTR_WEATHER_VISIBILITY = PNone"
proof -
  from assms obtain d1 d2 d3 d4 d5 d6 d7 where
    b: "put_temperature c self (length h0) (h0 @ [ODict []]) = Inr (h0 @ [ODict d1])"
    "put_humidity self (length h0) (h0 @ [ODict d1]) = Inr (h0 @ [ODict d2])"
    "put_ozone self (length h0) (h0 @ [ODict d2]) = Inr (h0 @ [ODict d3])"
    "put_pressure c self (length h0) (h0 @ [ODict d3]) = Inr (h0 @ [ODict d4])"
    "put_wind_bearing self (length h0) (h0 @ [ODict d4]) = Inr (h0 @ [ODict d5])"
    "put_wind_speed c self (length h0) (h0 @ [ODict d5]) = Inr (h0 @ [ODict d6])"
    "put_visibility c self (length h0) (h0 @ [ODict d6]) = Inr (h0 @ [ODict d7])"
    and a: "attribute h data ATTR_WEATHER_TEMPERATURE = dict_get d1 ATTR_WEATHER_TEMPERATURE"
    "attribute h data ATTR_WEATHER_HUMIDITY = dict_get d2 ATTR_WEATHER_HUMIDITY"
    "attribute h data ATTR_WEATHER_OZONE = dict_get d3 ATTR_WEATHER_OZONE"
    "attribute h data ATTR_WEATHER_PRESSURE = dict_get d4 ATTR_WEATHER_PRESSURE"
    "attribute h data ATTR_WEATHER_WIND_BEARING = dict_get d5 ATTR_WEATHER_WIND_BEARING"
    "attribute h data ATTR_WEATHER_WIND_SPEED = dict_get d6 ATTR_WEATHER_WIND_SPEED"
    "attribute h data ATTR_WEATHER_VISIBILITY = dict_get d7 ATTR_WEATHER_VISIBILITY"
    by (rule state_attributes_keys)
  note k = put_temperature_fresh [OF b(1)] put_humidity_fresh [OF b(2)] put_ozone_fresh [OF b(3)]
    put_pressure_fresh [OF b(4)] put_wind_bearing_fresh [OF b(5)] put_wind_speed_fresh [OF b(6)]
  have e: "dict_get [] key = PNone" for key
    by (simp add: dict_get_def)
  note o = sets_key_other
  from k(1) have 1: "dict_get d1 ATTR_WEATHER_HUMIDITY = PNone"
    by (auto simp: o e attr_defs)
  from k(1,2) have 2: "dict_get d2 ATTR_WEATHER_OZONE = PNone"
    by (auto simp: o e attr_defs)
  from k(1,2,3) have 3: "dict_get d3 ATTR_WEATHER_PRESSURE = PNone"
    by (auto simp: o e attr_defs)
  from k(1,2,3,4) have 4: "dict_get d4 ATTR_WEATHER_WIND_BEARING = PNone"
    by (auto simp: o e attr_defs)
  from k(1,2,3,4,5) have 5: "dict_get d5 ATTR_WEATHER_WIND_SPEED = PNone"
    by (auto simp: o e attr_defs)
  from k(1,2,3,4,5,6) have 6: "dict_get d6 ATTR_WEATHER_VISIBILITY = PNone"
    by (auto simp: o e attr_defs)
  show thesis
    using that [OF b a 1 2 3 4 5 6] .
qed

lemma converted_field_Inr:
  assumes "converted_field conv u key d = Inr d'"
  shows "sets_key key d d'" and "map fst d' = map fst d"
    and "converted_value conv u (dict_get d key) = Inr (dict_get d' key)"
proof -
  from assms show "sets_key key d d'"
    by (auto simp: converted_field_def Let_def rbind_Inr_iff sets_key_def
        split: if_splits option.splits)
  from assms show "map fst d' = map fst d"
    by (auto simp: converted_field_def Let_def rbind_Inr_iff dict_set_keys
        split: if_splits option.splits dest: dict_get_keys)
  from assms show "converted_value conv u (dict_get d key) = Inr (dict_get d' key)"
    by (auto simp: converted_field_def converted_value_def Let_def rbind_Inr_iff
        dict_get_dict_set split: if_splits option.splits)
qed

lemma converted_entry_fields:
  assumes "converted_entry c self d = Inr d'"
  shows "map fst d' = map fst d"
    and "converted_value (convert_temperature c self) (attr_temperature_unit self)
           (dict_get d ATTR_FORECAST_TEMP) = Inr (dict_get d' ATTR_FORECAST_TEMP)"
    and "converted_value (convert_temperature c self) (attr_temperature_unit self)
           (dict_get d ATTR_FORECAST_TEMP_LOW) = Inr (dict_get d' ATTR_FORECAST_TEMP_LOW)"
    and "converted_value (convert_pressure c self) (attr_pressure_unit self)
           (dict_get d ATTR_FORECAST_PRESSURE) = Inr (dict_get d' ATTR_FORECAST_PRESSURE)"
    and "converted_value (convert_wind_speed c self) (attr_wind_speed_unit self)
           (dict_get d ATTR_FORECAST_WIND_SPEED) = Inr (dict_get d' ATTR_FORECAST_WIND_SPEED)"
    and "converted_value (convert_precipitation c self) (attr_precipitation_unit self)
           (dict_get d ATTR_FORECAST_PRECIPITATION)
         = Inr (dict_get d' ATTR_FORECAST_PRECIPITATION)"
    and "key \<notin> {ATTR_FORECAST_TEMP, ATTR_FORECAST_TEMP_LOW, ATTR_FORECAST_PRESSURE,
           ATTR_FORECAST_WIND_SPEED, ATTR_FORECAST_PRECIPITATION} \<Longrightarrow>
         dict_get d' key = dict_get d key"
proof -
  from assms obtain e1 e2 e3 e4 where
    f1: "converted_field (convert_temperature c self) (attr_temperature_unit self)
           ATTR_FORECAST_TEMP d = Inr e1"
    and f2: "converted_field (convert_temperature c self) (attr_temperature_unit self)
           ATTR_FORECAST_TEMP_LOW e1 = Inr e2"
    and f3: "converted_field (convert_pressure c self) (attr_pressure_unit self)
           ATTR_FORECAST_PRESSURE e2 = Inr e3"
    and f4: "converted_field (convert_wind_speed c self) (attr_wind_speed_unit self)
           ATTR_FORECAST_WIND_SPEED e3 = Inr e4"
    and f5: "converted_field (convert_precipitation c self) (attr_precipitation_unit self)
           ATTR_FORECAST_PRECIPITATION e4 = Inr d'"
    by (auto simp: converted_entry_def rbind_Inr_iff)
  note k = converted_field_Inr(1) [OF f1] converted_field_Inr(1) [OF f2]
    converted_field_Inr(1) [OF f3] converted_field_Inr(1) [OF f4] converted_field_Inr(1) [OF f5]
  note o = sets_key_other
  show "map fst d' = map fst d"
    by (simp add: converted_field_Inr(2) [OF f1] converted_field_Inr(2) [OF f2]
        converted_field_Inr(2) [OF f3] converted_field_Inr(2) [OF f4]
        converted_field_Inr(2) [OF f5])
  have "dict_get d' ATTR_FORECAST_TEMP = dict_get e1 ATTR_FORECAST_TEMP"
    by (simp add: o [OF k(5)] o [OF k(4)] o [OF k(3)] o [OF k(2)] attr_defs)
  with converted_field_Inr(3) [OF f1]
  show "converted_value (convert_temperature c self) (attr_temperature_unit self)
           (dict_get d ATTR_FORECAST_TEMP) = Inr (dict_get d' ATTR_FORECAST_TEMP)"
    by simp
  have "dict_get d' ATTR_FORECAST_TEMP_LOW = dict_get e2 ATTR_FORECAST_TEMP_LOW"
    "dict_get e1 ATTR_FORECAST_TEMP_LOW = dict_get d ATTR_FORECAST_TEMP_LOW"
    by (simp_all add: o [OF k(5)] o [OF k(4)] o [OF k(3)] o [OF k(1)] attr_defs)
  with converted_field_Inr(3) [OF f2]
  show "converted_value (convert_temperature c self) (attr_temperature_unit self)
           (dict_get d ATTR_FORECAST_TEMP_LOW) = Inr (dict_get d' ATTR_FORECAST_TEMP_LOW)"
    by simp
  have "dict_get d' ATTR_FORECAST_PRESSURE = dict_get e3 ATTR_FORECAST_PRESSURE"
    "dict_get e2 ATTR_FORECAST_PRESSURE = dict_get d ATTR_FORECAST_PRESSURE"
    by (simp_all add: o [OF k(5)] o [OF k(4)] o [OF k(2)] o [OF k(1)] attr_defs)
  with converted_field_Inr(3) [OF f3]
  show "converted_value (convert_pressure c self) (attr_pressure_unit self)
           (dict_get d ATTR_FORECAST_PRESSURE) = Inr (dict_get d' ATTR_FORECAST_PRESSURE)"
    by simp
  have "dict_get d' ATTR_FORECAST_WIND_SPEED = dict_get e4 ATTR_FORECAST_WIND_SPEED"
    "dict_get e3 ATTR_FORECAST_WIND_SPEED = dict_get d ATTR_FORECAST_WIND_SPEED"
    by (simp_all add: o [OF k(5)] o [OF k(3)] o [OF k(2)] o [OF k(1)] attr_defs)
  with converted_field_Inr(3) [OF f4]
  show "converted_value (convert_wind_speed c self) (attr_wind_speed_unit self)
           (dict_get d ATTR_FORECAST_WIND_SPEED) = Inr (dict_get d' ATTR_FORECAST_WIND_SPEED)"
    by simp
  have "dict_get e4 ATTR_FORECAST_PRECIPITATION = dict_get d ATTR_FORECAST_PRECIPITATION"
    by (simp add: o [OF k(4)] o [OF k(3)] o [OF k(2)] o [OF k(1)] attr_defs)
  with converted_field_Inr(3) [OF f5]
  show "converted_value (convert_precipitation c self) (attr_precipitation_unit self)
           (dict_get d ATTR_FORECAST_PRECIPITATION)
         = Inr (dict_get d' ATTR_FORECAST_PRECIPITATION)"
    by simp
  show "dict_get d' key = dict_get d key"
    if "key \<notin> {ATTR_FORECAST_TEMP, ATTR_FORECAST_TEMP_LOW, ATTR_FORECAST_PRESSURE,
           ATTR_FORECAST_WIND_SPEED, ATTR_FORECAST_PRECIPITATION}"
    using that by (simp add: o [OF k(5)] o [OF k(4)] o [OF k(3)] o [OF k(2)] o [OF k(1)])
qed

lemma forecast_get_Inr:
  "forecast_get h l i k = Inr v \<longleftrightarrow>
     (\<exists>items d. get_list h l = Inr items \<and> i < length items \<and>
        stored_entry h (items ! i) = Inr d \<and> v = dict_get d k)"
  by (auto simp: forecast_get_def rbind_Inr_iff)

lemma forecast_entry_output:
  assumes "state_attributes c self h0 = Inr (data, h)"
    and "attr_forecast self = Some stored" and "stored_refs_ok self h0"
    and "get_list h0 stored = Inr items" and "i < length items"
  shows "\<exists>d d'. stored_entry h0 (items ! i) = Inr d \<and> converted_entry c self d = Inr d' \<and>
     attribute h data ATTR_FORECAST = PRef (Suc (length h0)) \<and>
     get_list h (Suc (length h0)) = Inr (map PRef [length h0 + 2..<length h0 + 2 + length items]) \<and>
     get_dict h (length h0 + 2 + i) = Inr d'"
proof -
  from assms(1) obtain d7 where data: "data = length h0"
    and pf: "put_forecast c self (length h0) (h0 @ [ODict d7]) = Inr h"
    by (rule state_attributes_keys)
  from assms(2,3,4) have "list_all (in_store h0) items"
    by (simp add: stored_refs_ok_def)
  from put_forecast_value [OF pf assms(2,4) this] obtain ds where
    ds: "map_result (\<lambda>item. rbind (stored_entry h0 item) (converted_entry c self)) items = Inr ds"
    and h: "h = h0 @ [ODict (dict_set ATTR_FORECAST (PRef (Suc (length h0))) d7),
        OList (map PRef [length h0 + 2..<length h0 + 2 + length ds])] @ map ODict ds"
    by blast
  from map_result_length [OF ds] have len: "length ds = length items" .
  from map_result_nth [OF ds assms(5)] obtain d where
    "stored_entry h0 (items ! i) = Inr d" "converted_entry c self d = Inr (ds ! i)"
    by (auto simp: rbind_Inr_iff)
  moreover have "attribute h data ATTR_FORECAST = PRef (Suc (length h0))"
    by (simp add: h data attribute_def dict_get_dict_set)
  moreover have "get_list h (Suc (length h0)) =
      Inr (map PRef [length h0 + 2..<length h0 + 2 + length items])"
    by (simp add: h len get_list_def nth_append del: upt_Suc)
  moreover have "get_dict h (length h0 + 2 + i) = Inr (ds ! i)"
    using assms(5) by (simp add: h len get_dict_def nth_append)
  ultimately show ?thesis by blast
qed

lemma forecast_field_output:
  assumes "state_attributes c self h0 = Inr (data, h)"
    and "attr_forecast self = Some stored" and "stored_refs_ok self h0"
    and "forecast_get h0 stored i key = Inr v"
  shows "\<exists>d d'. converted_entry c self d = Inr d' \<and> v = dict_get d key \<and>
     attribute h data ATTR_FORECAST = PRef (Suc (length h0)) \<and>
     (\<forall>k. forecast_get h (Suc (length h0)) i k = Inr (dict_get d' k))"
proof -
  from assms(4) obtain items d where
    items: "get_list h0 stored = Inr items" "i < length items"
    and d: "stored_entry h0 (items ! i) = Inr d" "v = dict_get d key"
    by (auto simp: forecast_get_Inr)
  from forecast_entry_output [OF assms(1,2,3) items] d(1) obtain d' where
    "converted_entry c self d = Inr d'"
    "attribute h data ATTR_FORECAST = PRef (Suc (length h0))"
    "get_list h (Suc (length h0)) = Inr (map PRef [length h0 + 2..<length h0 + 2 + length items])"
    "get_dict h (length h0 + 2 + i) = Inr d'"
    by auto
  with items(2) d(2) show ?thesis
    by (auto simp: forecast_get_def stored_entry_def add.assoc simp del: upt_Suc)
qed

lemma if_Inr_iff: "((if P then Inr a else Inr b) = (Inr y :: 'e + 'a)) \<longleftrightarrow> y = (if P then a else b)"
  by auto

lemma convert_temperature_Inr:
  "convert_temperature c self t unit = Inr y \<longleftrightarrow>
     (\<exists>displayed z. displayed_unit c self ATTR_WEATHER_TEMPERATURE = Inr displayed \<and>
        temperature_convert c t unit displayed = Inr z \<and>
        y = (if displayed = TEMP_CELSIUS c then py_round z 1 else py_round_int z))"
  unfolding convert_temperature_def rbind_Inr_iff if_Inr_iff by blast

lemma convert_pressure_Inr:
  "convert_pressure c self x unit = Inr y \<longleftrightarrow>
     (\<exists>displayed z. displayed_unit c self ATTR_WEATHER_PRESSURE = Inr displayed \<and>
        pressure_convert c x unit displayed = Inr z \<and> y = py_round z ROUNDING_PRECISION)"
  by (auto simp: convert_pressure_def rbind_Inr_iff)

lemma convert_wind_speed_Inr:
  "convert_wind_speed c self x unit = Inr y \<longleftrightarrow>
     (\<exists>displayed z. displayed_unit c self ATTR_WEATHER_WIND_SPEED = Inr displayed \<and>
        speed_convert c x unit displayed = Inr z \<and> y = py_round z ROUNDING_PRECISION)"
  by (auto simp: convert_wind_speed_def rbind_Inr_iff)

lemma convert_precipitation_Inr:
  "convert_precipitation c self x unit = Inr y \<longleftrightarrow>
     (\<exists>displayed z. displayed_unit c self ATTR_WEATHER_PRECIPITATION = Inr displayed \<and>
        distance_convert c x unit displayed = Inr z \<and> y = py_round z ROUNDING_PRECISION)"
  by (auto simp: convert_precipitation_def rbind_Inr_iff)

lemma converted_value_number:
  "converted_value conv (Some unit) (PNum x) = Inr v \<longleftrightarrow> (\<exists>y. conv x unit = Inr y \<and> v = PNum y)"
  by (auto simp: converted_value_def as_number_def rbind_Inr_iff)

lemma dict_get_single: "dict_get (dict_set k v d) k = v"
  by (simp add: dict_get_dict_set)

lemma put_temperature_unit:
  assumes "put_temperature c self (length h0) (h0 @ [ODict d]) = Inr (h0 @ [ODict d'])"
    and "attr_temperature self = Some x" and "attr_temperature_unit self = Some unit"
  shows "\<exists>y. convert_temperature c self x unit = Inr y \<and>
     dict_get d' ATTR_WEATHER_TEMPERATURE = PNum y"
  using assms
  by (auto simp: put_temperature_def setitem_fresh rbind_Inr_iff dict_get_single)

lemma put_temperature_no_unit:
  assumes "put_temperature c self (length h0) (h0 @ [ODict d]) = Inr (h0 @ [ODict d'])"
    and "attr_temperature self = Some x" and "attr_temperature_unit self = None"
  shows "dict_get d' ATTR_WEATHER_TEMPERATURE = PNum x"
  using assms
  by (auto simp: put_temperature_def setitem_fresh dict_get_single)

lemma put_humidity_value:
  assumes "put_humidity self (length h0) (h0 @ [ODict d]) = Inr (h0 @ [ODict d'])"
    and "attr_humidity self = Some x"
  shows "dict_get d' ATTR_WEATHER_HUMIDITY = PNum (py_round_int x)"
  using assms
  by (auto simp: put_humidity_def setitem_fresh dict_get_single)

lemma put_ozone_value:
  assumes "put_ozone self (length h0) (h0 @ [ODict d]) = Inr (h0 @ [ODict d'])"
    and "attr_ozone self = Some x"
  shows "dict_get d' ATTR_WEATHER_OZONE = PNum x"
  using assms
  by (auto simp: put_ozone_def setitem_fresh dict_get_single)

lemma put_pressure_unit:
  assumes "put_pressure c self (length h0) (h0 @ [ODict d]) = Inr (h0 @ [ODict d'])"
    and "attr_pressure self = Some x" and "attr_pressure_unit self = Some unit"
  shows "\<exists>y. convert_pressure c self x unit = Inr y \<and>
     dict_get d' ATTR_WEATHER_PRESSURE = PNum (py_round y ROUNDING_PRECISION)"
  using assms
  by (auto simp: put_pressure_def setitem_fresh rbind_Inr_iff dict_get_single)

lemma put_pressure_no_unit:
  assumes "put_pressure c self (length h0) (h0 @ [ODict d]) = Inr (h0 @ [ODict d'])"
    and "attr_pressure self = Some x" and "attr_pressure_unit self = None"
  shows "dict_get d' ATTR_WEATHER_PRESSURE = PNum (py_round x ROUNDING_PRECISION)"
  using assms
  by (auto simp: put_pressure_def setitem_fresh dict_get_single)

lemma put_wind_bearing_value:
  assumes "put_wind_bearing self (length h0) (h0 @ [ODict d]) = Inr (h0 @ [ODict d'])"
    and "attr_wind_bearing self \<noteq> PNone"
  shows "dict_get d' ATTR_WEATHER_WIND_BEARING = attr_wind_bearing self"
  using assms
  by (auto simp: put_wind_bearing_def setitem_fresh dict_get_single)

lemma put_wind_speed_unit:
  assumes "put_wind_speed c self (length h0) (h0 @ [ODict d]) = Inr (h0 @ [ODict d'])"
    and "attr_wind_speed self = Some x" and "attr_wind_speed_unit self = Some unit"
  shows "\<exists>y. convert_wind_speed c self x unit = Inr y \<and>
     dict_get d' ATTR_WEATHER_WIND_SPEED = PNum y"
  using assms
  by (auto simp: put_wind_speed_def setitem_fresh rbind_Inr_iff dict_get_single)

lemma put_wind_speed_no_unit:
  assumes "put_wind_speed c self (length h0) (h0 @ [ODict d]) = Inr (h0 @ [ODict d'])"
    and "attr_wind_speed self = Some x" and "attr_wind_speed_unit self = None"
  shows "dict_get d' ATTR_WEATHER_WIND_SPEED = PNum x"
  using assms
  by (auto simp: put_wind_speed_def setitem_fresh dict_get_single)

lemma put_visibility_unit:
  assumes "put_visibility c self (length h0) (h0 @ [ODict d]) = Inr (h0 @ [ODict d'])"
    and "attr_visibility self = Some x" and "attr_visibility_unit self = Some unit"
  shows "\<exists>displayed y. displayed_unit c self ATTR_WEATHER_VISIBILITY = Inr displayed \<and>
     distance_convert c x unit displayed = Inr y \<and>
     dict_get d' ATTR_WEATHER_VISIBILITY = PNum (py_round y ROUNDING_PRECISION)"
  using assms
  by (auto simp: put_visibility_def setitem_fresh rbind_Inr_iff dict_get_single)

lemma put_visibility_no_unit:
  assumes "put_visibility c self (length h0) (h0 @ [ODict d]) = Inr (h0 @ [ODict d'])"
    and "attr_visibility self = Some x" and "attr_visibility_unit self = None"
  shows "dict_get d' ATTR_WEATHER_VISIBILITY = PNum x"
  using assms
  by (auto simp: put_visibility_def setitem_fresh dict_get_single)

lemma forecast_number_output:
  assumes "state_attributes c self h0 = Inr (data, h)"
    and "attr_forecast self = Some stored" and "stored_refs_ok self h0"
    and "forecast_get h0 stored i key = Inr (PNum x)"
    and "\<And>d d'. converted_entry c self d = Inr d' \<Longrightarrow>
           converted_value conv (Some unit) (dict_get d key) = Inr (dict_get d' key)"
  shows "\<exists>y. conv x unit = Inr y \<and>
     attribute h data ATTR_FORECAST = PRef (Suc (length h0)) \<and>
     forecast_get h (Suc (length h0)) i key = Inr (PNum y)"
proof -
  from forecast_field_output [OF assms(1-4)] obtain d d' where
    e: "converted_entry c self d = Inr d'" and x: "PNum x = dict_get d key"
    and f: "attribute h data ATTR_FORECAST = PRef (Suc (length h0))"
    and g: "\<forall>k. forecast_get h (Suc (length h0)) i k = Inr (dict_get d' k)"
    by blast
  from assms(5) [OF e] x [symmetric] obtain y where
    "conv x unit = Inr y" "dict_get d' key = PNum y"
    by (auto simp: converted_value_number)
  with f g show ?thesis by simp
qed

subsection \<open>Rounding\<close>

lemma round_half_even_of_int: "round_half_even (of_int k) = k"
  by (simp add: round_half_even_def)

lemma py_round_idem: "py_round (py_round x n) n = py_round x n"
  by (simp add: py_round_def round_half_even_of_int)

lemma py_round_int_idem: "py_round_int (py_round_int x) = py_round_int x"
  by (simp add: py_round_int_def round_half_even_of_int)

subsection \<open>Display units\<close>

lemma tables_defined:
  assumes "quantity \<in> set weather_quantities"
  shows "\<exists>system_unit valid. map_of (preferred_units c self) quantity = Some system_unit \<and>
     map_of (VALID_UNITS c) quantity = Some valid"
  using assms
  by (auto simp: weather_quantities_def preferred_units_def METRIC_UNITS_def IMPERIAL_UNITS_def
      VALID_UNITS_def attr_defs)

lemma displayed_unit_resolve:
  assumes "map_of (preferred_units c self) quantity = Some system_unit"
    and "map_of (VALID_UNITS c) quantity = Some valid"
    and "[] \<notin> set valid"
  shows "displayed_unit c self quantity =
     Inr (resolve_unit system_unit valid (option_units_of_measurement self) quantity)"
  using assms
  by (auto simp: displayed_unit_def resolve_unit_def options_get_def split: option.splits)

lemma units_nonempty_valid:
  "units_nonempty c \<Longrightarrow> map_of (VALID_UNITS c) quantity = Some valid \<Longrightarrow> [] \<notin> set valid"
  unfolding units_nonempty_def list_all_iff
  by (auto dest!: map_of_SomeD)

lemma displayed_unit_total:
  assumes "quantity \<in> set weather_quantities"
  shows "\<exists>unit. displayed_unit c self quantity = Inr unit"
proof -
  from tables_defined [OF assms] obtain system_unit valid where
    "map_of (preferred_units c self) quantity = Some system_unit"
    "map_of (VALID_UNITS c) quantity = Some valid"
    by blast
  then show ?thesis
    by (auto simp: displayed_unit_def split: option.splits)
qed

subsection \<open>Values that are \<open>None\<close>\<close>

lemma converted_value_none: "converted_value conv u PNone = Inr PNone"
  by (simp add: converted_value_def)

lemma converted_entry_none:
  assumes "converted_entry c self d = Inr d'" and "dict_get d key = PNone"
  shows "dict_get d' key = PNone"
proof (cases "key \<in> {ATTR_FORECAST_TEMP, ATTR_FORECAST_TEMP_LOW, ATTR_FORECAST_PRESSURE,
           ATTR_FORECAST_WIND_SPEED, ATTR_FORECAST_PRECIPITATION}")
  case True
  with converted_entry_fields(2-6) [OF assms(1)] assms(2) show ?thesis
    by (auto simp: converted_value_none)
next
  case False
  with converted_entry_fields(7) [OF assms(1)] assms(2) show ?thesis
    by simp
qed

lemma convert_field_none:
  assumes "get_dict h fe = Inr d" and "dict_get d key = PNone"
  shows "convert_field convert native_unit fe key h = Inr h"
  using assms by (simp add: convert_field_def getitem_get_def)

lemma converted_field_none:
  "dict_get d key = PNone \<Longrightarrow> converted_field convert native_unit key d = Inr d"
  by (simp add: converted_field_def)

lemma attributes_none:
  assumes "state_attributes c self h0 = Inr (data, h)"
  shows "attr_temperature self = None \<Longrightarrow> attribute h data ATTR_WEATHER_TEMPERATURE = PNone"
    and "attr_humidity self = None \<Longrightarrow> attribute h data ATTR_WEATHER_HUMIDITY = PNone"
    and "attr_ozone self = None \<Longrightarrow> attribute h data ATTR_WEATHER_OZONE = PNone"
    and "attr_pressure self = None \<Longrightarrow> attribute h data ATTR_WEATHER_PRESSURE = PNone"
    and "attr_wind_bearing self = PNone \<Longrightarrow> attribute h data ATTR_WEATHER_WIND_BEARING = PNone"
    and "attr_wind_speed self = None \<Longrightarrow> attribute h data ATTR_WEATHER_WIND_SPEED = PNone"
    and "attr_visibility self = None \<Longrightarrow> attribute h data ATTR_WEATHER_VISIBILITY = PNone"
proof -
  from assms obtain d1 d2 d3 d4 d5 d6 d7 where
    b: "put_temperature c self (length h0) (h0 @ [ODict []]) = Inr (h0 @ [ODict d1])"
    "put_humidity self (length h0) (h0 @ [ODict d1]) = Inr (h0 @ [ODict d2])"
    "put_ozone self (length h0) (h0 @ [ODict d2]) = Inr (h0 @ [ODict d3])"
    "put_pressure c self (length h0) (h0 @ [ODict d3]) = Inr (h0 @ [ODict d4])"
    "put_wind_bearing self (length h0) (h0 @ [ODict d4]) = Inr (h0 @ [ODict d5])"
    "put_wind_speed c self (length h0) (h0 @ [ODict d5]) = Inr (h0 @ [ODict d6])"
    "put_visibility c self (length h0) (h0 @ [ODict d6]) = Inr (h0 @ [ODict d7])"
    and a: "attribute h data ATTR_WEATHER_TEMPERATURE = dict_get d1 ATTR_WEATHER_TEMPERATURE"
    "attribute h data ATTR_WEATHER_HUMIDITY = dict_get d2 ATTR_WEATHER_HUMIDITY"
    "attribute h data ATTR_WEATHER_OZONE = dict_get d3 ATTR_WEATHER_OZONE"
    "attribute h data ATTR_WEATHER_PRESSURE = dict_get d4 ATTR_WEATHER_PRESSURE"
    "attribute h data ATTR_WEATHER_WIND_BEARING = dict_get d5 ATTR_WEATHER_WIND_BEARING"
    "attribute h data ATTR_WEATHER_WIND_SPEED = dict_get d6 ATTR_WEATHER_WIND_SPEED"
    "attribute h data ATTR_WEATHER_VISIBILITY = dict_get d7 ATTR_WEATHER_VISIBILITY"
    and n: "dict_get d1 ATTR_WEATHER_HUMIDITY = PNone" "dict_get d2 ATTR_WEATHER_OZONE = PNone"
    "dict_get d3 ATTR_WEATHER_PRESSURE = PNone" "dict_get d4 ATTR_WEATHER_WIND_BEARING = PNone"
    "dict_get d5 ATTR_WEATHER_WIND_SPEED = PNone" "dict_get d6 ATTR_WEATHER_VISIBILITY = PNone"
    by (rule state_attributes_absent)
  show "attribute h data ATTR_WEATHER_TEMPERATURE = PNone" if "attr_temperature self = None"
    using b(1) that by (simp add: a put_temperature_def dict_get_def)
  show "attribute h data ATTR_WEATHER_HUMIDITY = PNone" if "attr_humidity self = None"
    using b(2) that n(1) by (simp add: a put_humidity_def)
  show "attribute h data ATTR_WEATHER_OZONE = PNone" if "attr_ozone self = None"
    using b(3) that n(2) by (simp add: a put_ozone_def)
  show "attribute h data ATTR_WEATHER_PRESSURE = PNone" if "attr_pressure self = None"
    using b(4) that n(3) by (simp add: a put_pressure_def)
  show "attribute h data ATTR_WEATHER_WIND_BEARING = PNone" if "attr_wind_bearing self = PNone"
    using b(5) that n(4) by (simp add: a put_wind_bearing_def)
  show "attribute h data ATTR_WEATHER_WIND_SPEED = PNone" if "attr_wind_speed self = None"
    using b(6) that n(5) by (simp add: a put_wind_speed_def)
  show "attribute h data ATTR_WEATHER_VISIBILITY = PNone" if "attr_visibility self = None"
    using b(7) that n(6) by (simp add: a put_visibility_def)
qed

lemma forecast_none_output:
  assumes "state_attributes c self h0 = Inr (data, h)"
    and "attr_forecast self = Some stored" and "stored_refs_ok self h0"
    and "forecast_get h0 stored i key = Inr PNone"
  shows "\<exists>fl. attribute h data ATTR_FORECAST = PRef fl \<and> forecast_get h fl i key = Inr PNone"
proof -
  from forecast_field_output [OF assms] obtain d d' where
    e: "converted_entry c self d = Inr d'" "PNone = dict_get d key"
    "attribute h data ATTR_FORECAST = PRef (Suc (length h0))"
    "\<forall>k. forecast_get h (Suc (length h0)) i k = Inr (dict_get d' k)"
    by blast
  from converted_entry_none [OF e(1) e(2) [symmetric]] e(3,4) show ?thesis
    by simp
qed

subsection \<open>The example evaluated\<close>

lemma example_run:
  "state_attributes example_env example_entity example_heap = Inr (3, example_result)"
  by code_simp

lemma example_bare_run:
  "state_attributes example_env example_bare [] = Inr (0, example_bare_result)"
  by code_simp

lemma example_same_run:
  "state_attributes example_env example_same [] = Inr (0, example_same_result)"
  by code_simp

lemma example_null_run:
  "state_attributes failing_env example_null example_null_heap = Inr (2, example_null_result)"
  by code_simp


section \<open>Properties of the weather entity\<close>

text \<open>
  C1: for each of the five quantities \<open>displayed_unit\<close> raises nothing and returns the unit
  that the resolution rule of the specification gives: the unit of the metric or imperial
  table, replaced by the override's unit when an override map is present, contains the
  quantity and its unit is in the quantity's valid set; an override outside the valid set
  leaves the system unit. The imported tables are assumed to hold no empty unit name.
\<close>

theorem displayed_unit_resolution:
  assumes "quantity \<in> set weather_quantities" and "units_nonempty c"
  shows "\<exists>system_unit valid.
     map_of (if is_metric self then METRIC_UNITS c else IMPERIAL_UNITS c) quantity
       = Some system_unit \<and>
     map_of (VALID_UNITS c) quantity = Some valid \<and>
     displayed_unit c self quantity =
       Inr (resolve_unit system_unit valid (option_units_of_measurement self) quantity)"
proof -
  from tables_defined [OF assms(1)] obtain system_unit valid where
    t: "map_of (preferred_units c self) quantity = Some system_unit"
       "map_of (VALID_UNITS c) quantity = Some valid"
    by blast
  from units_nonempty_valid [OF assms(2) t(2)] have "[] \<notin> set valid" .
  from displayed_unit_resolve [OF t this] t show ?thesis
    by (auto simp: preferred_units_def)
qed

theorem displayed_unit_resolution_witness:
  "ATTR_WEATHER_PRESSURE \<in> set weather_quantities \<and> units_nonempty example_env \<and>
   displayed_unit example_env example_entity ATTR_WEATHER_PRESSURE = Inr ''inHg'' \<and>
   displayed_unit example_env
     (example_entity\<lparr>option_units_of_measurement := Some [(''pressure'', Some ''peer_pressure'')]\<rparr>)
     ATTR_WEATHER_PRESSURE = Inr ''hPa''"
proof -
  have q: "ATTR_WEATHER_PRESSURE \<in> set weather_quantities"
    by (simp add: weather_quantities_def)
  have n: "units_nonempty example_env"
    by code_simp
  have e: "displayed_unit example_env example_entity ATTR_WEATHER_PRESSURE = Inr ''inHg''"
    "displayed_unit example_env
       (example_entity\<lparr>option_units_of_measurement := Some [(''pressure'', Some ''peer_pressure'')]\<rparr>)
       ATTR_WEATHER_PRESSURE = Inr ''hPa''"
    by code_simp+
  from displayed_unit_resolution [OF q n, of example_entity] q n e show ?thesis
    by blast
qed

text \<open>
  C2: a quantity whose native value is \<open>None\<close> is not converted and raises nothing. For
  the entity's own attributes the block of the quantity leaves the store as it is, whatever
  the helpers do; for a field of a forecast entry that is \<open>None\<close> the conversion of the
  field leaves the copy as it is. On a run that returns, reading the quantity from the
  result gives \<open>None\<close>: the entity's attribute is absent from the new dict, and the field
  of the converted forecast entry is \<open>None\<close> (so a \<open>None\<close> pressure field stays \<open>None\<close>).
\<close>

theorem null_passes_through:
  "(attr_temperature self = None \<longrightarrow> put_temperature c self data h = Inr h) \<and>
   (attr_humidity self = None \<longrightarrow> put_humidity self data h = Inr h) \<and>
   (attr_ozone self = None \<longrightarrow> put_ozone self data h = Inr h) \<and>
   (attr_pressure self = None \<longrightarrow> put_pressure c self data h = Inr h) \<and>
   (attr_wind_bearing self = PNone \<longrightarrow> put_wind_bearing self data h = Inr h) \<and>
   (attr_wind_speed self = None \<longrightarrow> put_wind_speed c self data h = Inr h) \<and>
   (attr_visibility self = None \<longrightarrow> put_visibility c self data h = Inr h) \<and>
   (get_dict h forecast_entry = Inr d \<and> dict_get d key = PNone \<longrightarrow>
      convert_field convert native_unit forecast_entry key h = Inr h \<and>
      converted_field convert native_unit key d = Inr d) \<and>
   (state_attributes c self h0 = Inr (data', h') \<longrightarrow>
      (attr_temperature self = None \<longrightarrow> attribute h' data' ATTR_WEATHER_TEMPERATURE = PNone) \<and>
      (attr_humidity self = None \<longrightarrow> attribute h' data' ATTR_WEATHER_HUMIDITY = PNone) \<and>
      (attr_ozone self = None \<longrightarrow> attribute h' data' ATTR_WEATHER_OZONE = PNone) \<and>
      (attr_pressure self = None \<longrightarrow> attribute h' data' ATTR_WEATHER_PRESSURE = PNone) \<and>
      (attr_wind_bearing self = PNone \<longrightarrow>
         attribute h' data' ATTR_WEATHER_WIND_BEARING = PNone) \<and>
      (attr_wind_speed self = None \<longrightarrow> attribute h' data' ATTR_WEATHER_WIND_SPEED = PNone) \<and>
      (attr_visibility self = None \<longrightarrow> attribute h' data' ATTR_WEATHER_VISIBILITY = PNone) \<and>
      (\<forall>stored i k. attr_forecast self = Some stored \<and> stored_refs_ok self h0 \<and>
         forecast_get h0 stored i k = Inr PNone \<longrightarrow>
         (\<exists>fl. attribute h' data' ATTR_FORECAST = PRef fl \<and>
            forecast_get h' fl i k = Inr PNone)))"
proof -
  have blocks:
    "attr_temperature self = None \<longrightarrow> put_temperature c self data h = Inr h"
    "attr_humidity self = None \<longrightarrow> put_humidity self data h = Inr h"
    "attr_ozone self = None \<longrightarrow> put_ozone self data h = Inr h"
    "attr_pressure self = None \<longrightarrow> put_pressure c self data h = Inr h"
    "attr_wind_bearing self = PNone \<longrightarrow> put_wind_bearing self data h = Inr h"
    "attr_wind_speed self = None \<longrightarrow> put_wind_speed c self data h = Inr h"
    "attr_visibility self = None \<longrightarrow> put_visibility c self data h = Inr h"
    by (simp_all add: put_temperature_def put_humidity_def put_ozone_def put_pressure_def
        put_wind_bearing_def put_wind_speed_def put_visibility_def)
  have field: "get_dict h forecast_entry = Inr d \<and> dict_get d key = PNone \<longrightarrow>
      convert_field convert native_unit forecast_entry key h = Inr h \<and>
      converted_field convert native_unit key d = Inr d"
    by (simp add: convert_field_none converted_field_none)
  have run: "(attr_temperature self = None \<longrightarrow> attribute h' data' ATTR_WEATHER_TEMPERATURE = PNone) \<and>
      (attr_humidity self = None \<longrightarrow> attribute h' data' ATTR_WEATHER_HUMIDITY = PNone) \<and>
      (attr_ozone self = None \<longrightarrow> attribute h' data' ATTR_WEATHER_OZONE = PNone) \<and>
      (attr_pressure self = None \<longrightarrow> attribute h' data' ATTR_WEATHER_PRESSURE = PNone) \<and>
      (attr_wind_bearing self = PNone \<longrightarrow>
         attribute h' data' ATTR_WEATHER_WIND_BEARING = PNone) \<and>
      (attr_wind_speed self = None \<longrightarrow> attribute h' data' ATTR_WEATHER_WIND_SPEED = PNone) \<and>
      (attr_visibility self = None \<longrightarrow> attribute h' data' ATTR_WEATHER_VISIBILITY = PNone) \<and>
      (\<forall>stored i k. attr_forecast self = Some stored \<and> stored_refs_ok self h0 \<and>
         forecast_get h0 stored i k = Inr PNone \<longrightarrow>
         (\<exists>fl. attribute h' data' ATTR_FORECAST = PRef fl \<and>
            forecast_get h' fl i k = Inr PNone))"
    if r: "state_attributes c self h0 = Inr (data', h')"
  proof (intro conjI allI impI)
    fix stored i k
    assume "attr_forecast self = Some stored \<and> stored_refs_ok self h0 \<and>
         forecast_get h0 stored i k = Inr PNone"
    then show "\<exists>fl. attribute h' data' ATTR_FORECAST = PRef fl \<and>
            forecast_get h' fl i k = Inr PNone"
      using forecast_none_output [OF r, of stored i k] by blast
  qed (simp_all add: attributes_none [OF r])
  have last: "state_attributes c self h0 = Inr (data', h') \<longrightarrow>
      (attr_temperature self = None \<longrightarrow> attribute h' data' ATTR_WEATHER_TEMPERATURE = PNone) \<and>
      (attr_humidity self = None \<longrightarrow> attribute h' data' ATTR_WEATHER_HUMIDITY = PNone) \<and>
      (attr_ozone self = None \<longrightarrow> attribute h' data' ATTR_WEATHER_OZONE = PNone) \<and>
      (attr_pressure self = None \<longrightarrow> attribute h' data' ATTR_WEATHER_PRESSURE = PNone) \<and>
      (attr_wind_bearing self = PNone \<longrightarrow>
         attribute h' data' ATTR_WEATHER_WIND_BEARING = PNone) \<and>
      (attr_wind_speed self = None \<longrightarrow> attribute h' data' ATTR_WEATHER_WIND_SPEED = PNone) \<and>
      (attr_visibility self = None \<longrightarrow> attribute h' data' ATTR_WEATHER_VISIBILITY = PNone) \<and>
      (\<forall>stored i k. attr_forecast self = Some stored \<and> stored_refs_ok self h0 \<and>
         forecast_get h0 stored i k = Inr PNone \<longrightarrow>
         (\<exists>fl. attribute h' data' ATTR_FORECAST = PRef fl \<and>
            forecast_get h' fl i k = Inr PNone))"
    by (rule impI) (rule run)
  show ?thesis
    by (rule conjI [OF blocks(1) conjI [OF blocks(2) conjI [OF blocks(3) conjI [OF blocks(4)
        conjI [OF blocks(5) conjI [OF blocks(6) conjI [OF blocks(7) conjI [OF field last]]]]]]]])
qed

theorem null_passes_through_witness:
  "attr_temperature example_null = None \<and> attr_humidity example_null = None \<and>
   attr_ozone example_null = None \<and> attr_pressure example_null = None \<and>
   attr_wind_bearing example_null = PNone \<and> attr_wind_speed example_null = None \<and>
   attr_visibility example_null = None \<and>
   put_pressure failing_env example_null 2 example_null_result = Inr example_null_result \<and>
   get_dict example_null_result 4 = Inr example_null_entry \<and>
   dict_get example_null_entry ATTR_FORECAST_PRESSURE = PNone \<and>
   convert_field (convert_pressure failing_env example_null) (Some ''hPa'') 4
     ATTR_FORECAST_PRESSURE example_null_result = Inr example_null_result \<and>
   state_attributes failing_env example_null example_null_heap = Inr (2, example_null_result) \<and>
   attribute example_null_result 2 ATTR_WEATHER_TEMPERATURE = PNone \<and>
   attribute example_null_result 2 ATTR_WEATHER_PRESSURE = PNone \<and>
   attr_forecast example_null = Some 0 \<and> stored_refs_ok example_null example_null_heap \<and>
   forecast_get example_null_heap 0 0 ATTR_FORECAST_PRESSURE = Inr PNone \<and>
   attribute example_null_result 2 ATTR_FORECAST = PRef 3 \<and>
   forecast_get example_null_result 3 0 ATTR_FORECAST_PRESSURE = Inr PNone"
proof -
  have e: "attr_temperature example_null = None" "attr_humidity example_null = None"
    "attr_ozone example_null = None" "attr_pressure example_null = None"
    "attr_wind_bearing example_null = PNone" "attr_wind_speed example_null = None"
    "attr_visibility example_null = None"
    "put_pressure failing_env example_null 2 example_null_result = Inr example_null_result"
    "get_dict example_null_result 4 = Inr example_null_entry"
    "dict_get example_null_entry ATTR_FORECAST_PRESSURE = PNone"
    "convert_field (convert_pressure failing_env example_null) (Some ''hPa'') 4
       ATTR_FORECAST_PRESSURE example_null_result = Inr example_null_result"
    "attribute example_null_result 2 ATTR_WEATHER_TEMPERATURE = PNone"
    "attribute example_null_result 2 ATTR_WEATHER_PRESSURE = PNone"
    "attr_forecast example_null = Some 0" "stored_refs_ok example_null example_null_heap"
    "forecast_get example_null_heap 0 0 ATTR_FORECAST_PRESSURE = Inr PNone"
    "attribute example_null_result 2 ATTR_FORECAST = PRef 3"
    "forecast_get example_null_result 3 0 ATTR_FORECAST_PRESSURE = Inr PNone"
    by code_simp+
  from null_passes_through [where self = example_null and c = failing_env and data = 2
      and h = example_null_result and forecast_entry = 4 and d = example_null_entry
      and key = ATTR_FORECAST_PRESSURE and convert = "convert_pressure failing_env example_null"
      and native_unit = "Some ''hPa''" and ?h0.0 = example_null_heap and data' = 2
      and h' = example_null_result]
    example_null_run e
  show ?thesis by blast
qed

text \<open>
  C3: when the entity has a native temperature unit, every temperature that is not
  \<open>None\<close> (the entity's own and the \<open>temperature\<close> and \<open>templow\<close> fields of the forecast
  entries) is shown as the helper's conversion of the native value to the displayed
  temperature unit, rounded to one decimal when that unit is Celsius and to an integer
  otherwise.
\<close>

theorem temperature_displayed:
  assumes "state_attributes c self h0 = Inr (data, h)"
    and "attr_temperature_unit self = Some unit"
  shows "\<exists>displayed. displayed_unit c self ATTR_WEATHER_TEMPERATURE = Inr displayed \<and>
     (\<forall>x. attr_temperature self = Some x \<longrightarrow>
        (\<exists>y. temperature_convert c x unit displayed = Inr y \<and>
           attribute h data ATTR_WEATHER_TEMPERATURE =
             PNum (if displayed = TEMP_CELSIUS c then py_round y 1 else py_round_int y))) \<and>
     (\<forall>stored i key x. attr_forecast self = Some stored \<and> stored_refs_ok self h0 \<and>
        (key = ATTR_FORECAST_TEMP \<or> key = ATTR_FORECAST_TEMP_LOW) \<and>
        forecast_get h0 stored i key = Inr (PNum x) \<longrightarrow>
        (\<exists>y fl. temperature_convert c x unit displayed = Inr y \<and>
           attribute h data ATTR_FORECAST = PRef fl \<and>
           forecast_get h fl i key =
             Inr (PNum (if displayed = TEMP_CELSIUS c then py_round y 1 else py_round_int y))))"
proof -
  obtain displayed where
    disp: "displayed_unit c self ATTR_WEATHER_TEMPERATURE = Inr displayed"
    using displayed_unit_total [of ATTR_WEATHER_TEMPERATURE c self]
    by (auto simp: weather_quantities_def)
  have top: "\<exists>y. temperature_convert c x unit displayed = Inr y \<and>
           attribute h data ATTR_WEATHER_TEMPERATURE =
             PNum (if displayed = TEMP_CELSIUS c then py_round y 1 else py_round_int y)"
    if x: "attr_temperature self = Some x" for x
  proof -
    from assms(1) obtain d1 where
      b: "put_temperature c self (length h0) (h0 @ [ODict []]) = Inr (h0 @ [ODict d1])"
      and a: "attribute h data ATTR_WEATHER_TEMPERATURE = dict_get d1 ATTR_WEATHER_TEMPERATURE"
      by (rule state_attributes_keys)
    from put_temperature_unit [OF b x assms(2)] a disp show ?thesis
      by (auto simp: convert_temperature_Inr)
  qed
  have fc: "\<exists>y fl. temperature_convert c x unit displayed = Inr y \<and>
           attribute h data ATTR_FORECAST = PRef fl \<and>
           forecast_get h fl i key =
             Inr (PNum (if displayed = TEMP_CELSIUS c then py_round y 1 else py_round_int y))"
    if s: "attr_forecast self = Some stored" "stored_refs_ok self h0"
      and key: "key = ATTR_FORECAST_TEMP \<or> key = ATTR_FORECAST_TEMP_LOW"
      and x: "forecast_get h0 stored i key = Inr (PNum x)" for stored i key x
  proof -
    have "converted_value (convert_temperature c self) (Some unit) (dict_get d key)
        = Inr (dict_get d' key)" if "converted_entry c self d = Inr d'" for d d'
      using converted_entry_fields(2,3) [OF that] key assms(2) by auto
    from forecast_number_output [OF assms(1) s x this] disp show ?thesis
      by (auto simp: convert_temperature_Inr)
  qed
  from disp top fc show ?thesis by blast
qed

theorem temperature_displayed_witness:
  "state_attributes example_env example_entity example_heap = Inr (3, example_result) \<and>
   attr_temperature_unit example_entity = Some ''F'' \<and>
   attr_temperature example_entity = Some 38 \<and>
   displayed_unit example_env example_entity ATTR_WEATHER_TEMPERATURE
     = Inr (TEMP_CELSIUS example_env) \<and>
   temperature_convert example_env 38 ''F'' ''C'' = Inr (10 / 3) \<and>
   attribute example_result 3 ATTR_WEATHER_TEMPERATURE = PNum (33 / 10) \<and>
   forecast_get example_heap 0 0 ATTR_FORECAST_TEMP_LOW = Inr (PNum 32) \<and>
   forecast_get example_result 4 0 ATTR_FORECAST_TEMP_LOW = Inr (PNum 0)"
proof -
  have u: "attr_temperature_unit example_entity = Some ''F''"
    by (simp add: example_entity_def)
  have e: "attr_temperature example_entity = Some 38"
    "displayed_unit example_env example_entity ATTR_WEATHER_TEMPERATURE
       = Inr (TEMP_CELSIUS example_env)"
    "temperature_convert example_env 38 ''F'' ''C'' = Inr (10 / 3)"
    "attribute example_result 3 ATTR_WEATHER_TEMPERATURE = PNum (33 / 10)"
    "forecast_get example_heap 0 0 ATTR_FORECAST_TEMP_LOW = Inr (PNum 32)"
    "forecast_get example_result 4 0 ATTR_FORECAST_TEMP_LOW = Inr (PNum 0)"
    by code_simp+
  from temperature_displayed [OF example_run u] example_run u e show ?thesis
    by blast
qed

text \<open>
  C4: on a run that returns, a pressure, wind speed or visibility of the entity that is not
  \<open>None\<close> and has a native unit, and a \<open>pressure\<close>, \<open>wind_speed\<close> or \<open>precipitation\<close> field
  of a forecast entry that is a number while the entity has the native unit, is shown as
  the helper's conversion of the native value to the displayed unit of the quantity,
  rounded to \<open>ROUNDING_PRECISION\<close> = 2 decimals. (The entity's pressure is rounded twice,
  which changes nothing.)
\<close>

theorem two_decimals_displayed:
  assumes "state_attributes c self h0 = Inr (data, h)"
  shows
    "(\<forall>x unit. attr_pressure self = Some x \<and> attr_pressure_unit self = Some unit \<longrightarrow>
        (\<exists>displayed y. displayed_unit c self ATTR_WEATHER_PRESSURE = Inr displayed \<and>
           pressure_convert c x unit displayed = Inr y \<and>
           attribute h data ATTR_WEATHER_PRESSURE = PNum (py_round y ROUNDING_PRECISION))) \<and>
     (\<forall>x unit. attr_wind_speed self = Some x \<and> attr_wind_speed_unit self = Some unit \<longrightarrow>
        (\<exists>displayed y. displayed_unit c self ATTR_WEATHER_WIND_SPEED = Inr displayed \<and>
           speed_convert c x unit displayed = Inr y \<and>
           attribute h data ATTR_WEATHER_WIND_SPEED = PNum (py_round y ROUNDING_PRECISION))) \<and>
     (\<forall>x unit. attr_visibility self = Some x \<and> attr_visibility_unit self = Some unit \<longrightarrow>
        (\<exists>displayed y. displayed_unit c self ATTR_WEATHER_VISIBILITY = Inr displayed \<and>
           distance_convert c x unit displayed = Inr y \<and>
           attribute h data ATTR_WEATHER_VISIBILITY = PNum (py_round y ROUNDING_PRECISION))) \<and>
     (\<forall>stored i x unit. attr_forecast self = Some stored \<and> stored_refs_ok self h0 \<and>
        forecast_get h0 stored i ATTR_FORECAST_PRESSURE = Inr (PNum x) \<and>
        attr_pressure_unit self = Some unit \<longrightarrow>
        (\<exists>displayed y fl. displayed_unit c self ATTR_WEATHER_PRESSURE = Inr displayed \<and>
           pressure_convert c x unit displayed = Inr y \<and>
           attribute h data ATTR_FORECAST = PRef fl \<and>
           forecast_get h fl i ATTR_FORECAST_PRESSURE
             = Inr (PNum (py_round y ROUNDING_PRECISION)))) \<and>
     (\<forall>stored i x unit. attr_forecast self = Some stored \<and> stored_refs_ok self h0 \<and>
        forecast_get h0 stored i ATTR_FORECAST_WIND_SPEED = Inr (PNum x) \<and>
        attr_wind_speed_unit self = Some unit \<longrightarrow>
        (\<exists>displayed y fl. displayed_unit c self ATTR_WEATHER_WIND_SPEED = Inr displayed \<and>
           speed_convert c x unit displayed = Inr y \<and>
           attribute h data ATTR_FORECAST = PRef fl \<and>
           forecast_get h fl i ATTR_FORECAST_WIND_SPEED
             = Inr (PNum (py_round y ROUNDING_PRECISION)))) \<and>
     (\<forall>stored i x unit. attr_forecast self = Some stored \<and> stored_refs_ok self h0 \<and>
        forecast_get h0 stored i ATTR_FORECAST_PRECIPITATION = Inr (PNum x) \<and>
        attr_precipitation_unit self = Some unit \<longrightarrow>
        (\<exists>displayed y fl. displayed_unit c self ATTR_WEATHER_PRECIPITATION = Inr displayed \<and>
           distance_convert c x unit displayed = Inr y \<and>
           attribute h data ATTR_FORECAST = PRef fl \<and>
           forecast_get h fl i ATTR_FORECAST_PRECIPITATION
             = Inr (PNum (py_round y ROUNDING_PRECISION))))"
proof -
  from assms obtain d3 d4 d5 d6 d7 where
    b: "put_pressure c self (length h0) (h0 @ [ODict d3]) = Inr (h0 @ [ODict d4])"
    "put_wind_speed c self (length h0) (h0 @ [ODict d5]) = Inr (h0 @ [ODict d6])"
    "put_visibility c self (length h0) (h0 @ [ODict d6]) = Inr (h0 @ [ODict d7])"
    and a: "attribute h data ATTR_WEATHER_PRESSURE = dict_get d4 ATTR_WEATHER_PRESSURE"
    "attribute h data ATTR_WEATHER_WIND_SPEED = dict_get d6 ATTR_WEATHER_WIND_SPEED"
    "attribute h data ATTR_WEATHER_VISIBILITY = dict_get d7 ATTR_WEATHER_VISIBILITY"
    by (rule state_attributes_keys)
  have p: "\<exists>displayed y. displayed_unit c self ATTR_WEATHER_PRESSURE = Inr displayed \<and>
           pressure_convert c x unit displayed = Inr y \<and>
           attribute h data ATTR_WEATHER_PRESSURE = PNum (py_round y ROUNDING_PRECISION)"
    if "attr_pressure self = Some x" "attr_pressure_unit self = Some unit" for x unit
    using put_pressure_unit [OF b(1) that] a(1)
    by (auto simp: convert_pressure_Inr py_round_idem)
  have w: "\<exists>displayed y. displayed_unit c self ATTR_WEATHER_WIND_SPEED = Inr displayed \<and>
           speed_convert c x unit displayed = Inr y \<and>
           attribute h data ATTR_WEATHER_WIND_SPEED = PNum (py_round y ROUNDING_PRECISION)"
    if "attr_wind_speed self = Some x" "attr_wind_speed_unit self = Some unit" for x unit
    using put_wind_speed_unit [OF b(2) that] a(2)
    by (auto simp: convert_wind_speed_Inr)
  have v: "\<exists>displayed y. displayed_unit c self ATTR_WEATHER_VISIBILITY = Inr displayed \<and>
           distance_convert c x unit displayed = Inr y \<and>
           attribute h data ATTR_WEATHER_VISIBILITY = PNum (py_round y ROUNDING_PRECISION)"
    if "attr_visibility self = Some x" "attr_visibility_unit self = Some unit" for x unit
    using put_visibility_unit [OF b(3) that] a(3)
    by auto
  have fp: "\<exists>displayed y fl. displayed_unit c self ATTR_WEATHER_PRESSURE = Inr displayed \<and>
           pressure_convert c x unit displayed = Inr y \<and>
           attribute h data ATTR_FORECAST = PRef fl \<and>
           forecast_get h fl i ATTR_FORECAST_PRESSURE
             = Inr (PNum (py_round y ROUNDING_PRECISION))"
    if s: "attr_forecast self = Some stored" "stored_refs_ok self h0"
      and x: "forecast_get h0 stored i ATTR_FORECAST_PRESSURE = Inr (PNum x)"
      and u: "attr_pressure_unit self = Some unit" for stored i x unit
  proof -
    have "converted_value (convert_pressure c self) (Some unit) (dict_get d ATTR_FORECAST_PRESSURE)
        = Inr (dict_get d' ATTR_FORECAST_PRESSURE)" if "converted_entry c self d = Inr d'" for d d'
      using converted_entry_fields(4) [OF that] u by simp
    from forecast_number_output [OF assms s x this] show ?thesis
      by (auto simp: convert_pressure_Inr)
  qed
  have fw: "\<exists>displayed y fl. displayed_unit c self ATTR_WEATHER_WIND_SPEED = Inr displayed \<and>
           speed_convert c x unit displayed = Inr y \<and>
           attribute h data ATTR_FORECAST = PRef fl \<and>
           forecast_get h fl i ATTR_FORECAST_WIND_SPEED
             = Inr (PNum (py_round y ROUNDING_PRECISION))"
    if s: "attr_forecast self = Some stored" "stored_refs_ok self h0"
      and x: "forecast_get h0 stored i ATTR_FORECAST_WIND_SPEED = Inr (PNum x)"
      and u: "attr_wind_speed_unit self = Some unit" for stored i x unit
  proof -
    have "converted_value (convert_wind_speed c self) (Some unit)
          (dict_get d ATTR_FORECAST_WIND_SPEED)
        = Inr (dict_get d' ATTR_FORECAST_WIND_SPEED)" if "converted_entry c self d = Inr d'" for d d'
      using converted_entry_fields(5) [OF that] u by simp
    from forecast_number_output [OF assms s x this] show ?thesis
      by (auto simp: convert_wind_speed_Inr)
  qed
  have fr: "\<exists>displayed y fl. displayed_unit c self ATTR_WEATHER_PRECIPITATION = Inr displayed \<and>
           distance_convert c x unit displayed = Inr y \<and>
           attribute h data ATTR_FORECAST = PRef fl \<and>
           forecast_get h fl i ATTR_FORECAST_PRECIPITATION
             = Inr (PNum (py_round y ROUNDING_PRECISION))"
    if s: "attr_forecast self = Some stored" "stored_refs_ok self h0"
      and x: "forecast_get h0 stored i ATTR_FORECAST_PRECIPITATION = Inr (PNum x)"
      and u: "attr_precipitation_unit self = Some unit" for stored i x unit
  proof -
    have "converted_value (convert_precipitation c self) (Some unit)
          (dict_get d ATTR_FORECAST_PRECIPITATION)
        = Inr (dict_get d' ATTR_FORECAST_PRECIPITATION)"
      if "converted_entry c self d = Inr d'" for d d'
      using converted_entry_fields(6) [OF that] u by simp
    from forecast_number_output [OF assms s x this] show ?thesis
      by (auto simp: convert_precipitation_Inr)
  qed
  show ?thesis
  proof (intro conjI allI impI)
    fix x unit assume "attr_pressure self = Some x \<and> attr_pressure_unit self = Some unit"
    then show "\<exists>displayed y. displayed_unit c self ATTR_WEATHER_PRESSURE = Inr displayed \<and>
           pressure_convert c x unit displayed = Inr y \<and>
           attribute h data ATTR_WEATHER_PRESSURE = PNum (py_round y ROUNDING_PRECISION)"
      using p [of x unit] by (elim conjE)
  next
    fix x unit assume "attr_wind_speed self = Some x \<and> attr_wind_speed_unit self = Some unit"
    then show "\<exists>displayed y. displayed_unit c self ATTR_WEATHER_WIND_SPEED = Inr displayed \<and>
           speed_convert c x unit displayed = Inr y \<and>
           attribute h data ATTR_WEATHER_WIND_SPEED = PNum (py_round y ROUNDING_PRECISION)"
      using w [of x unit] by (elim conjE)
  next
    fix x unit assume "attr_visibility self = Some x \<and> attr_visibility_unit self = Some unit"
    then show "\<exists>displayed y. displayed_unit c self ATTR_WEATHER_VISIBILITY = Inr displayed \<and>
           distance_convert c x unit displayed = Inr y \<and>
           attribute h data ATTR_WEATHER_VISIBILITY = PNum (py_round y ROUNDING_PRECISION)"
      using v [of x unit] by (elim conjE)
  next
    fix stored i x unit
    assume "attr_forecast self = Some stored \<and> stored_refs_ok self h0 \<and>
        forecast_get h0 stored i ATTR_FORECAST_PRESSURE = Inr (PNum x) \<and>
        attr_pressure_unit self = Some unit"
    then show "\<exists>displayed y fl. displayed_unit c self ATTR_WEATHER_PRESSURE = Inr displayed \<and>
           pressure_convert c x unit displayed = Inr y \<and>
           attribute h data ATTR_FORECAST = PRef fl \<and>
           forecast_get h fl i ATTR_FORECAST_PRESSURE
             = Inr (PNum (py_round y ROUNDING_PRECISION))"
      using fp [of stored i x unit] by (elim conjE)
  next
    fix stored i x unit
    assume "attr_forecast self = Some stored \<and> stored_refs_ok self h0 \<and>
        forecast_get h0 stored i ATTR_FORECAST_WIND_SPEED = Inr (PNum x) \<and>
        attr_wind_speed_unit self = Some unit"
    then show "\<exists>displayed y fl. displayed_unit c self ATTR_WEATHER_WIND_SPEED = Inr displayed \<and>
           speed_convert c x unit displayed = Inr y \<and>
           attribute h data ATTR_FORECAST = PRef fl \<and>
           forecast_get h fl i ATTR_FORECAST_WIND_SPEED
             = Inr (PNum (py_round y ROUNDING_PRECISION))"
      using fw [of stored i x unit] by (elim conjE)
  next
    fix stored i x unit
    assume "attr_forecast self = Some stored \<and> stored_refs_ok self h0 \<and>
        forecast_get h0 stored i ATTR_FORECAST_PRECIPITATION = Inr (PNum x) \<and>
        attr_precipitation_unit self = Some unit"
    then show "\<exists>displayed y fl. displayed_unit c self ATTR_WEATHER_PRECIPITATION = Inr displayed \<and>
           distance_convert c x unit displayed = Inr y \<and>
           attribute h data ATTR_FORECAST = PRef fl \<and>
           forecast_get h fl i ATTR_FORECAST_PRECIPITATION
             = Inr (PNum (py_round y ROUNDING_PRECISION))"
      using fr [of stored i x unit] by (elim conjE)
  qed
qed

theorem two_decimals_displayed_witness:
  "state_attributes example_env example_entity example_heap = Inr (3, example_result) \<and>
   attr_pressure example_entity = Some 1000 \<and> attr_pressure_unit example_entity = Some ''hPa'' \<and>
   displayed_unit example_env example_entity ATTR_WEATHER_PRESSURE = Inr ''inHg'' \<and>
   pressure_convert example_env 1000 ''hPa'' ''inHg'' = Inr (2953 / 100) \<and>
   attribute example_result 3 ATTR_WEATHER_PRESSURE = PNum (2953 / 100) \<and>
   attribute example_result 3 ATTR_WEATHER_WIND_SPEED = PNum 36 \<and>
   distance_convert example_env 10 ''mi'' ''km'' = Inr (1609344 / 100000) \<and>
   attribute example_result 3 ATTR_WEATHER_VISIBILITY = PNum (1609 / 100) \<and>
   attr_forecast example_entity = Some 0 \<and> stored_refs_ok example_entity example_heap \<and>
   forecast_get example_heap 0 1 ATTR_FORECAST_WIND_SPEED = Inr (PNum 10) \<and>
   forecast_get example_result 4 1 ATTR_FORECAST_WIND_SPEED = Inr (PNum 36) \<and>
   forecast_get example_heap 0 0 ATTR_FORECAST_PRECIPITATION = Inr (PNum (1234 / 1000)) \<and>
   forecast_get example_result 4 0 ATTR_FORECAST_PRECIPITATION = Inr (PNum (123 / 100))"
proof -
  have e: "attr_pressure example_entity = Some 1000"
    "attr_pressure_unit example_entity = Some ''hPa''"
    "displayed_unit example_env example_entity ATTR_WEATHER_PRESSURE = Inr ''inHg''"
    "pressure_convert example_env 1000 ''hPa'' ''inHg'' = Inr (2953 / 100)"
    "attribute example_result 3 ATTR_WEATHER_PRESSURE = PNum (2953 / 100)"
    "attribute example_result 3 ATTR_WEATHER_WIND_SPEED = PNum 36"
    "distance_convert example_env 10 ''mi'' ''km'' = Inr (1609344 / 100000)"
    "attribute example_result 3 ATTR_WEATHER_VISIBILITY = PNum (1609 / 100)"
    "attr_forecast example_entity = Some 0" "stored_refs_ok example_entity example_heap"
    "forecast_get example_heap 0 1 ATTR_FORECAST_WIND_SPEED = Inr (PNum 10)"
    "forecast_get example_result 4 1 ATTR_FORECAST_WIND_SPEED = Inr (PNum 36)"
    "forecast_get example_heap 0 0 ATTR_FORECAST_PRECIPITATION = Inr (PNum (1234 / 1000))"
    "forecast_get example_result 4 0 ATTR_FORECAST_PRECIPITATION = Inr (PNum (123 / 100))"
    by code_simp+
  from two_decimals_displayed [OF example_run] example_run e show ?thesis
    by blast
qed

text \<open>
  C5: on a run that returns, a humidity that is not \<open>None\<close> is shown rounded to the nearest
  integer, with no unit conversion; a wind bearing and an ozone value that are not \<open>None\<close>
  are shown as they are.
\<close>

theorem humidity_bearing_ozone:
  assumes "state_attributes c self h0 = Inr (data, h)"
  shows
    "(\<forall>x. attr_humidity self = Some x \<longrightarrow>
        attribute h data ATTR_WEATHER_HUMIDITY = PNum (py_round_int x)) \<and>
     (attr_wind_bearing self \<noteq> PNone \<longrightarrow>
        attribute h data ATTR_WEATHER_WIND_BEARING = attr_wind_bearing self) \<and>
     (\<forall>x. attr_ozone self = Some x \<longrightarrow> attribute h data ATTR_WEATHER_OZONE = PNum x)"
proof -
  from assms obtain d1 d2 d3 d4 d5 where
    b: "put_humidity self (length h0) (h0 @ [ODict d1]) = Inr (h0 @ [ODict d2])"
    "put_ozone self (length h0) (h0 @ [ODict d2]) = Inr (h0 @ [ODict d3])"
    "put_wind_bearing self (length h0) (h0 @ [ODict d4]) = Inr (h0 @ [ODict d5])"
    and a: "attribute h data ATTR_WEATHER_HUMIDITY = dict_get d2 ATTR_WEATHER_HUMIDITY"
    "attribute h data ATTR_WEATHER_OZONE = dict_get d3 ATTR_WEATHER_OZONE"
    "attribute h data ATTR_WEATHER_WIND_BEARING = dict_get d5 ATTR_WEATHER_WIND_BEARING"
    by (rule state_attributes_keys)
  from put_humidity_value [OF b(1)] put_ozone_value [OF b(2)] put_wind_bearing_value [OF b(3)] a
  show ?thesis by simp
qed

theorem humidity_bearing_ozone_witness:
  "state_attributes example_env example_entity example_heap = Inr (3, example_result) \<and>
   attr_humidity example_entity = Some (605 / 10) \<and>
   attribute example_result 3 ATTR_WEATHER_HUMIDITY = PNum 60 \<and>
   attr_wind_bearing example_entity = PStr ''NW'' \<and>
   attribute example_result 3 ATTR_WEATHER_WIND_BEARING = PStr ''NW'' \<and>
   attr_ozone example_entity = Some (3001 / 10) \<and>
   attribute example_result 3 ATTR_WEATHER_OZONE = PNum (3001 / 10)"
proof -
  have e: "attr_humidity example_entity = Some (605 / 10)"
    "attr_wind_bearing example_entity = PStr ''NW''"
    "attr_ozone example_entity = Some (3001 / 10)"
    "attribute example_result 3 ATTR_WEATHER_HUMIDITY = PNum 60"
    "attribute example_result 3 ATTR_WEATHER_WIND_BEARING = PStr ''NW''"
    "attribute example_result 3 ATTR_WEATHER_OZONE = PNum (3001 / 10)"
    by code_simp+
  from humidity_bearing_ozone [OF example_run] example_run e show ?thesis
    by blast
qed



text \<open>
  C7: when the native unit is the displayed unit of the quantity and the helper returns
  its input on equal units, each \<open>convert_*\<close> method returns the input changed by nothing
  but the rounding rule of the quantity, and returns a value that is already rounded by
  that rule as it is; on a run that returns, the entity's temperature, pressure, wind
  speed and visibility are shown as the rounded input.
\<close>

theorem same_unit_rounding:
  "(displayed_unit c self ATTR_WEATHER_TEMPERATURE = Inr u \<and>
    same_unit_identity (temperature_convert c) u \<longrightarrow>
      convert_temperature c self x u
        = Inr (if u = TEMP_CELSIUS c then py_round x 1 else py_round_int x) \<and>
      convert_temperature c self
          (if u = TEMP_CELSIUS c then py_round x 1 else py_round_int x) u
        = Inr (if u = TEMP_CELSIUS c then py_round x 1 else py_round_int x)) \<and>
   (displayed_unit c self ATTR_WEATHER_PRESSURE = Inr u \<and>
    same_unit_identity (pressure_convert c) u \<longrightarrow>
      convert_pressure c self x u = Inr (py_round x ROUNDING_PRECISION) \<and>
      convert_pressure c self (py_round x ROUNDING_PRECISION) u
        = Inr (py_round x ROUNDING_PRECISION)) \<and>
   (displayed_unit c self ATTR_WEATHER_WIND_SPEED = Inr u \<and>
    same_unit_identity (speed_convert c) u \<longrightarrow>
      convert_wind_speed c self x u = Inr (py_round x ROUNDING_PRECISION) \<and>
      convert_wind_speed c self (py_round x ROUNDING_PRECISION) u
        = Inr (py_round x ROUNDING_PRECISION)) \<and>
   (displayed_unit c self ATTR_WEATHER_VISIBILITY = Inr u \<and>
    same_unit_identity (distance_convert c) u \<longrightarrow>
      convert_visibility c self x u = Inr (py_round x ROUNDING_PRECISION) \<and>
      convert_visibility c self (py_round x ROUNDING_PRECISION) u
        = Inr (py_round x ROUNDING_PRECISION)) \<and>
   (displayed_unit c self ATTR_WEATHER_PRECIPITATION = Inr u \<and>
    same_unit_identity (distance_convert c) u \<longrightarrow>
      convert_precipitation c self x u = Inr (py_round x ROUNDING_PRECISION) \<and>
      convert_precipitation c self (py_round x ROUNDING_PRECISION) u
        = Inr (py_round x ROUNDING_PRECISION)) \<and>
   (state_attributes c self h0 = Inr (data, h) \<longrightarrow>
      (attr_temperature self = Some x \<and> attr_temperature_unit self = Some u \<and>
       displayed_unit c self ATTR_WEATHER_TEMPERATURE = Inr u \<and>
       same_unit_identity (temperature_convert c) u \<longrightarrow>
         attribute h data ATTR_WEATHER_TEMPERATURE
           = PNum (if u = TEMP_CELSIUS c then py_round x 1 else py_round_int x)) \<and>
      (attr_pressure self = Some x \<and> attr_pressure_unit self = Some u \<and>
       displayed_unit c self ATTR_WEATHER_PRESSURE = Inr u \<and>
       same_unit_identity (pressure_convert c) u \<longrightarrow>
         attribute h data ATTR_WEATHER_PRESSURE = PNum (py_round x ROUNDING_PRECISION)) \<and>
      (attr_wind_speed self = Some x \<and> attr_wind_speed_unit self = Some u \<and>
       displayed_unit c self ATTR_WEATHER_WIND_SPEED = Inr u \<and>
       same_unit_identity (speed_convert c) u \<longrightarrow>
         attribute h data ATTR_WEATHER_WIND_SPEED = PNum (py_round x ROUNDING_PRECISION)) \<and>
      (attr_visibility self = Some x \<and> attr_visibility_unit self = Some u \<and>
       displayed_unit c self ATTR_WEATHER_VISIBILITY = Inr u \<and>
       same_unit_identity (distance_convert c) u \<longrightarrow>
         attribute h data ATTR_WEATHER_VISIBILITY = PNum (py_round x ROUNDING_PRECISION)))"
proof -
  have m: "displayed_unit c self ATTR_WEATHER_TEMPERATURE = Inr u \<and>
    same_unit_identity (temperature_convert c) u \<longrightarrow>
      convert_temperature c self x u
        = Inr (if u = TEMP_CELSIUS c then py_round x 1 else py_round_int x) \<and>
      convert_temperature c self
          (if u = TEMP_CELSIUS c then py_round x 1 else py_round_int x) u
        = Inr (if u = TEMP_CELSIUS c then py_round x 1 else py_round_int x)"
    "displayed_unit c self ATTR_WEATHER_PRESSURE = Inr u \<and>
    same_unit_identity (pressure_convert c) u \<longrightarrow>
      convert_pressure c self x u = Inr (py_round x ROUNDING_PRECISION) \<and>
      convert_pressure c self (py_round x ROUNDING_PRECISION) u
        = Inr (py_round x ROUNDING_PRECISION)"
    "displayed_unit c self ATTR_WEATHER_WIND_SPEED = Inr u \<and>
    same_unit_identity (speed_convert c) u \<longrightarrow>
      convert_wind_speed c self x u = Inr (py_round x ROUNDING_PRECISION) \<and>
      convert_wind_speed c self (py_round x ROUNDING_PRECISION) u
        = Inr (py_round x ROUNDING_PRECISION)"
    "displayed_unit c self ATTR_WEATHER_VISIBILITY = Inr u \<and>
    same_unit_identity (distance_convert c) u \<longrightarrow>
      convert_visibility c self x u = Inr (py_round x ROUNDING_PRECISION) \<and>
      convert_visibility c self (py_round x ROUNDING_PRECISION) u
        = Inr (py_round x ROUNDING_PRECISION)"
    "displayed_unit c self ATTR_WEATHER_PRECIPITATION = Inr u \<and>
    same_unit_identity (distance_convert c) u \<longrightarrow>
      convert_precipitation c self x u = Inr (py_round x ROUNDING_PRECISION) \<and>
      convert_precipitation c self (py_round x ROUNDING_PRECISION) u
        = Inr (py_round x ROUNDING_PRECISION)"
    by (simp_all add: same_unit_identity_def convert_temperature_def convert_pressure_def
        convert_wind_speed_def convert_visibility_def convert_precipitation_def
        py_round_idem py_round_int_idem)
  have r: "(attr_temperature self = Some x \<and> attr_temperature_unit self = Some u \<and>
       displayed_unit c self ATTR_WEATHER_TEMPERATURE = Inr u \<and>
       same_unit_identity (temperature_convert c) u \<longrightarrow>
         attribute h data ATTR_WEATHER_TEMPERATURE
           = PNum (if u = TEMP_CELSIUS c then py_round x 1 else py_round_int x)) \<and>
      (attr_pressure self = Some x \<and> attr_pressure_unit self = Some u \<and>
       displayed_unit c self ATTR_WEATHER_PRESSURE = Inr u \<and>
       same_unit_identity (pressure_convert c) u \<longrightarrow>
         attribute h data ATTR_WEATHER_PRESSURE = PNum (py_round x ROUNDING_PRECISION)) \<and>
      (attr_wind_speed self = Some x \<and> attr_wind_speed_unit self = Some u \<and>
       displayed_unit c self ATTR_WEATHER_WIND_SPEED = Inr u \<and>
       same_unit_identity (speed_convert c) u \<longrightarrow>
         attribute h data ATTR_WEATHER_WIND_SPEED = PNum (py_round x ROUNDING_PRECISION)) \<and>
      (attr_visibility self = Some x \<and> attr_visibility_unit self = Some u \<and>
       displayed_unit c self ATTR_WEATHER_VISIBILITY = Inr u \<and>
       same_unit_identity (distance_convert c) u \<longrightarrow>
         attribute h data ATTR_WEATHER_VISIBILITY = PNum (py_round x ROUNDING_PRECISION))"
    if run: "state_attributes c self h0 = Inr (data, h)"
  proof -
    from run obtain d1 d3 d4 d5 d6 d7 where
      b: "put_temperature c self (length h0) (h0 @ [ODict []]) = Inr (h0 @ [ODict d1])"
      "put_pressure c self (length h0) (h0 @ [ODict d3]) = Inr (h0 @ [ODict d4])"
      "put_wind_speed c self (length h0) (h0 @ [ODict d5]) = Inr (h0 @ [ODict d6])"
      "put_visibility c self (length h0) (h0 @ [ODict d6]) = Inr (h0 @ [ODict d7])"
      and a: "attribute h data ATTR_WEATHER_TEMPERATURE = dict_get d1 ATTR_WEATHER_TEMPERATURE"
      "attribute h data ATTR_WEATHER_PRESSURE = dict_get d4 ATTR_WEATHER_PRESSURE"
      "attribute h data ATTR_WEATHER_WIND_SPEED = dict_get d6 ATTR_WEATHER_WIND_SPEED"
      "attribute h data ATTR_WEATHER_VISIBILITY = dict_get d7 ATTR_WEATHER_VISIBILITY"
      by (rule state_attributes_keys)
    have 1: "attribute h data ATTR_WEATHER_TEMPERATURE
           = PNum (if u = TEMP_CELSIUS c then py_round x 1 else py_round_int x)"
      if "attr_temperature self = Some x" "attr_temperature_unit self = Some u"
        "displayed_unit c self ATTR_WEATHER_TEMPERATURE = Inr u"
        "same_unit_identity (temperature_convert c) u"
      using put_temperature_unit [OF b(1) that(1,2)] m(1) that(3,4) a(1) by auto
    have 2: "attribute h data ATTR_WEATHER_PRESSURE = PNum (py_round x ROUNDING_PRECISION)"
      if "attr_pressure self = Some x" "attr_pressure_unit self = Some u"
        "displayed_unit c self ATTR_WEATHER_PRESSURE = Inr u"
        "same_unit_identity (pressure_convert c) u"
      using put_pressure_unit [OF b(2) that(1,2)] m(2) that(3,4) a(2)
      by (auto simp: py_round_idem)
    have 3: "attribute h data ATTR_WEATHER_WIND_SPEED = PNum (py_round x ROUNDING_PRECISION)"
      if "attr_wind_speed self = Some x" "attr_wind_speed_unit self = Some u"
        "displayed_unit c self ATTR_WEATHER_WIND_SPEED = Inr u"
        "same_unit_identity (speed_convert c) u"
      using put_wind_speed_unit [OF b(3) that(1,2)] m(3) that(3,4) a(3) by auto
    have 4: "attribute h data ATTR_WEATHER_VISIBILITY = PNum (py_round x ROUNDING_PRECISION)"
      if "attr_visibility self = Some x" "attr_visibility_unit self = Some u"
        "displayed_unit c self ATTR_WEATHER_VISIBILITY = Inr u"
        "same_unit_identity (distance_convert c) u"
      using put_visibility_unit [OF b(4) that(1,2)] that(3,4) a(4)
      by (auto simp: same_unit_identity_def)
    from 1 2 3 4 show ?thesis
      by blast
  qed
  have last: "state_attributes c self h0 = Inr (data, h) \<longrightarrow>
      (attr_temperature self = Some x \<and> attr_temperature_unit self = Some u \<and>
       displayed_unit c self ATTR_WEATHER_TEMPERATURE = Inr u \<and>
       same_unit_identity (temperature_convert c) u \<longrightarrow>
         attribute h data ATTR_WEATHER_TEMPERATURE
           = PNum (if u = TEMP_CELSIUS c then py_round x 1 else py_round_int x)) \<and>
      (attr_pressure self = Some x \<and> attr_pressure_unit self = Some u \<and>
       displayed_unit c self ATTR_WEATHER_PRESSURE = Inr u \<and>
       same_unit_identity (pressure_convert c) u \<longrightarrow>
         attribute h data ATTR_WEATHER_PRESSURE = PNum (py_round x ROUNDING_PRECISION)) \<and>
      (attr_wind_speed self = Some x \<and> attr_wind_speed_unit self = Some u \<and>
       displayed_unit c self ATTR_WEATHER_WIND_SPEED = Inr u \<and>
       same_unit_identity (speed_convert c) u \<longrightarrow>
         attribute h data ATTR_WEATHER_WIND_SPEED = PNum (py_round x ROUNDING_PRECISION)) \<and>
      (attr_visibility self = Some x \<and> attr_visibility_unit self = Some u \<and>
       displayed_unit c self ATTR_WEATHER_VISIBILITY = Inr u \<and>
       same_unit_identity (distance_convert c) u \<longrightarrow>
         attribute h data ATTR_WEATHER_VISIBILITY = PNum (py_round x ROUNDING_PRECISION))"
    by (rule impI) (rule r)
  show ?thesis
    by (rule conjI [OF m(1) conjI [OF m(2) conjI [OF m(3) conjI [OF m(4)
        conjI [OF m(5) last]]]]])
qed

theorem same_unit_rounding_witness:
  "displayed_unit example_env example_same ATTR_WEATHER_TEMPERATURE = Inr ''C'' \<and>
   same_unit_identity (temperature_convert example_env) ''C'' \<and>
   convert_temperature example_env example_same (2125 / 100) ''C'' = Inr (212 / 10) \<and>
   convert_temperature example_env example_same (212 / 10) ''C'' = Inr (212 / 10) \<and>
   displayed_unit example_env example_same ATTR_WEATHER_PRESSURE = Inr ''hPa'' \<and>
   same_unit_identity (pressure_convert example_env) ''hPa'' \<and>
   convert_pressure example_env example_same (1013125 / 1000) ''hPa'' = Inr (101312 / 100) \<and>
   convert_pressure example_env example_same (101312 / 100) ''hPa'' = Inr (101312 / 100) \<and>
   state_attributes example_env example_same [] = Inr (0, example_same_result) \<and>
   attr_temperature example_same = Some (2125 / 100) \<and>
   attr_temperature_unit example_same = Some ''C'' \<and>
   attribute example_same_result 0 ATTR_WEATHER_TEMPERATURE = PNum (212 / 10) \<and>
   attr_pressure example_same = Some (1013125 / 1000) \<and>
   attr_pressure_unit example_same = Some ''hPa'' \<and>
   attribute example_same_result 0 ATTR_WEATHER_PRESSURE = PNum (101312 / 100)"
proof -
  have i: "same_unit_identity (temperature_convert example_env) ''C''"
    "same_unit_identity (pressure_convert example_env) ''hPa''"
    by (simp_all add: same_unit_identity_def example_env_def)
  have e: "displayed_unit example_env example_same ATTR_WEATHER_TEMPERATURE = Inr ''C''"
    "convert_temperature example_env example_same (2125 / 100) ''C'' = Inr (212 / 10)"
    "convert_temperature example_env example_same (212 / 10) ''C'' = Inr (212 / 10)"
    "displayed_unit example_env example_same ATTR_WEATHER_PRESSURE = Inr ''hPa''"
    "convert_pressure example_env example_same (1013125 / 1000) ''hPa'' = Inr (101312 / 100)"
    "convert_pressure example_env example_same (101312 / 100) ''hPa'' = Inr (101312 / 100)"
    "attr_temperature example_same = Some (2125 / 100)"
    "attr_temperature_unit example_same = Some ''C''"
    "attribute example_same_result 0 ATTR_WEATHER_TEMPERATURE = PNum (212 / 10)"
    "attr_pressure example_same = Some (1013125 / 1000)"
    "attr_pressure_unit example_same = Some ''hPa''"
    "attribute example_same_result 0 ATTR_WEATHER_PRESSURE = PNum (101312 / 100)"
    by code_simp+
  from same_unit_rounding [where c = example_env and self = example_same and u = "''C''"
      and x = "2125 / 100" and ?h0.0 = "[]" and data = 0 and h = example_same_result]
    same_unit_rounding [where c = example_env and self = example_same and u = "''hPa''"
      and x = "1013125 / 1000" and ?h0.0 = "[]" and data = 0 and h = example_same_result]
    example_same_run i e
  show ?thesis by blast
qed

text \<open>
  C8: a run of \<open>state_attributes\<close> that returns changes no object of the store it started
  from, the stored forecast list and every stored forecast entry included; the dict it
  returns, the forecast list in it and every entry of that list are new objects. The
  entity's attributes are read and never assigned by the method, so the model takes the
  entity as an argument only.
\<close>

theorem stored_values_unchanged:
  assumes "state_attributes c self h0 = Inr (data, h)"
  shows "take (length h0) h = h0 \<and> data = length h0 \<and> (\<exists>d. get_dict h data = Inr d) \<and>
     (\<forall>stored. attr_forecast self = Some stored \<longrightarrow>
        (\<exists>fl items. attribute h data ATTR_FORECAST = PRef fl \<and> length h0 \<le> fl \<and>
           get_list h fl = Inr items \<and>
           list_all (\<lambda>v. \<exists>a d. v = PRef a \<and> length h0 \<le> a \<and> get_dict h a = Inr d) items))"
proof -
  from assms obtain d7 where data: "data = length h0"
    and pf: "put_forecast c self (length h0) (h0 @ [ODict d7]) = Inr h"
    by (rule state_attributes_keys)
  show ?thesis
  proof (cases "attr_forecast self")
    case None
    with pf have "h = h0 @ [ODict d7]"
      by (simp add: put_forecast_none)
    with data None show ?thesis
      by (simp add: get_dict_def)
  next
    case (Some stored)
    from put_forecast_shape [OF pf Some] obtain ds where
      h: "h = h0 @ [ODict (dict_set ATTR_FORECAST (PRef (Suc (length h0))) d7),
          OList (map PRef [length h0 + 2..<length h0 + 2 + length ds])] @ map ODict ds"
      by blast
    have 1: "take (length h0) h = h0" "\<exists>d. get_dict h data = Inr d"
      "attribute h data ATTR_FORECAST = PRef (Suc (length h0))"
      by (simp_all add: h data get_dict_def attribute_def dict_get_dict_set)
    have 2: "get_list h (Suc (length h0)) =
        Inr (map PRef [length h0 + 2..<length h0 + 2 + length ds])"
      by (simp add: h get_list_def nth_append del: upt_Suc)
    have 3: "list_all (\<lambda>v. \<exists>a d. v = PRef a \<and> length h0 \<le> a \<and> get_dict h a = Inr d)
        (map PRef [length h0 + 2..<length h0 + 2 + length ds])"
      by (auto simp: list_all_iff h get_dict_def nth_append simp del: upt_Suc)
    from 1 2 3 data show ?thesis
      by (intro conjI allI impI exI [of _ "Suc (length h0)"]
          exI [of _ "map PRef [length h0 + 2..<length h0 + 2 + length ds]"]) simp_all
  qed
qed

theorem stored_values_unchanged_witness:
  "state_attributes example_env example_entity example_heap = Inr (3, example_result) \<and>
   take (length example_heap) example_result = example_heap \<and>
   length example_heap = 3 \<and>
   attr_forecast example_entity = Some 0 \<and>
   get_list example_result 0 = Inr [PRef 1, PRef 2] \<and>
   get_dict example_result 1 = get_dict example_heap 1 \<and>
   get_dict example_result 2 = get_dict example_heap 2 \<and>
   attribute example_result 3 ATTR_FORECAST = PRef 4 \<and>
   get_list example_result 4 = Inr [PRef 5, PRef 6]"
proof -
  have e: "take (length example_heap) example_result = example_heap"
    "length example_heap = 3"
    "attr_forecast example_entity = Some 0"
    "get_list example_result 0 = Inr [PRef 1, PRef 2]"
    "get_dict example_result 1 = get_dict example_heap 1"
    "get_dict example_result 2 = get_dict example_heap 2"
    "attribute example_result 3 ATTR_FORECAST = PRef 4"
    "get_list example_result 4 = Inr [PRef 5, PRef 6]"
    by code_simp+
  from stored_values_unchanged [OF example_run] example_run e show ?thesis
    by blast
qed

text \<open>
  C9: with no native unit, a pressure that is not \<open>None\<close> is still rounded to 2 decimals,
  while a temperature, a wind speed and a visibility pass through as they are.
\<close>

theorem missing_unit_rounding:
  assumes "state_attributes c self h0 = Inr (data, h)"
  shows
    "(\<forall>x. attr_pressure self = Some x \<and> attr_pressure_unit self = None \<longrightarrow>
        attribute h data ATTR_WEATHER_PRESSURE = PNum (py_round x ROUNDING_PRECISION)) \<and>
     (\<forall>x. attr_temperature self = Some x \<and> attr_temperature_unit self = None \<longrightarrow>
        attribute h data ATTR_WEATHER_TEMPERATURE = PNum x) \<and>
     (\<forall>x. attr_wind_speed self = Some x \<and> attr_wind_speed_unit self = None \<longrightarrow>
        attribute h data ATTR_WEATHER_WIND_SPEED = PNum x) \<and>
     (\<forall>x. attr_visibility self = Some x \<and> attr_visibility_unit self = None \<longrightarrow>
        attribute h data ATTR_WEATHER_VISIBILITY = PNum x)"
proof -
  from assms obtain d1 d3 d4 d5 d6 d7 where
    b: "put_temperature c self (length h0) (h0 @ [ODict []]) = Inr (h0 @ [ODict d1])"
    "put_pressure c self (length h0) (h0 @ [ODict d3]) = Inr (h0 @ [ODict d4])"
    "put_wind_speed c self (length h0) (h0 @ [ODict d5]) = Inr (h0 @ [ODict d6])"
    "put_visibility c self (length h0) (h0 @ [ODict d6]) = Inr (h0 @ [ODict d7])"
    and a: "attribute h data ATTR_WEATHER_TEMPERATURE = dict_get d1 ATTR_WEATHER_TEMPERATURE"
    "attribute h data ATTR_WEATHER_PRESSURE = dict_get d4 ATTR_WEATHER_PRESSURE"
    "attribute h data ATTR_WEATHER_WIND_SPEED = dict_get d6 ATTR_WEATHER_WIND_SPEED"
    "attribute h data ATTR_WEATHER_VISIBILITY = dict_get d7 ATTR_WEATHER_VISIBILITY"
    by (rule state_attributes_keys)
  from put_temperature_no_unit [OF b(1)] put_pressure_no_unit [OF b(2)]
    put_wind_speed_no_unit [OF b(3)] put_visibility_no_unit [OF b(4)] a
  show ?thesis by simp
qed

theorem missing_unit_rounding_witness:
  "state_attributes example_env example_bare [] = Inr (0, example_bare_result) \<and>
   attr_pressure example_bare = Some (1000126 / 1000) \<and> attr_pressure_unit example_bare = None \<and>
   attribute example_bare_result 0 ATTR_WEATHER_PRESSURE = PNum (100013 / 100) \<and>
   attr_temperature example_bare = Some (20126 / 1000) \<and>
   attr_temperature_unit example_bare = None \<and>
   attribute example_bare_result 0 ATTR_WEATHER_TEMPERATURE = PNum (20126 / 1000) \<and>
   attr_wind_speed example_bare = Some (5126 / 1000) \<and> attr_wind_speed_unit example_bare = None \<and>
   attribute example_bare_result 0 ATTR_WEATHER_WIND_SPEED = PNum (5126 / 1000) \<and>
   attr_visibility example_bare = Some (10126 / 1000) \<and> attr_visibility_unit example_bare = None \<and>
   attribute example_bare_result 0 ATTR_WEATHER_VISIBILITY = PNum (10126 / 1000)"
proof -
  have e: "attr_pressure example_bare = Some (1000126 / 1000)"
    "attr_pressure_unit example_bare = None"
    "attr_temperature example_bare = Some (20126 / 1000)"
    "attr_temperature_unit example_bare = None"
    "attr_wind_speed example_bare = Some (5126 / 1000)"
    "attr_wind_speed_unit example_bare = None"
    "attr_visibility example_bare = Some (10126 / 1000)"
    "attr_visibility_unit example_bare = None"
    "attribute example_bare_result 0 ATTR_WEATHER_PRESSURE = PNum (100013 / 100)"
    "attribute example_bare_result 0 ATTR_WEATHER_TEMPERATURE = PNum (20126 / 1000)"
    "attribute example_bare_result 0 ATTR_WEATHER_WIND_SPEED = PNum (5126 / 1000)"
    "attribute example_bare_result 0 ATTR_WEATHER_VISIBILITY = PNum (10126 / 1000)"
    by code_simp+
  from missing_unit_rounding [OF example_bare_run] example_bare_run e show ?thesis
    by blast
qed

section \<open>Properties of the TED sensors\<close>

text \<open>
  C10: \<open>TedSensor.state\<close> returns \<open>None\<close>, raising nothing, when its key is absent from the
  coordinator data; \<open>TedBreakdownSensor.state\<close> raises (an \<open>AttributeError\<close>) when its
  position is absent from the group's mapping, whatever the key: \<open>.get(position)\<close> gives
  \<open>None\<close> and the next \<open>.get\<close> is called on it.
\<close>

theorem ted_state_absent:
  "(map_of d key = None \<longrightarrow> TedSensor_state (TDict d) key = Inr TNone) \<and>
   (map_of d grp = Some (TDict g) \<and> map_of g position = None \<longrightarrow>
      TedBreakdownSensor_state (TDict d) grp position key = Inl AttributeError)"
  by (simp add: TedSensor_state_def TedBreakdownSensor_state_def ted_get_def ted_getitem_def
      rbind_def)

theorem ted_state_absent_witness:
  "TedSensor_state (TDict [(''consumption'', TNum 5)]) ''voltage'' = Inr TNone \<and>
   TedBreakdownSensor_state
     (TDict [(''mtus'', TDict [(''1'', TDict [(''voltage'', TNum 120)])])])
     ''mtus'' ''2'' ''voltage'' = Inl AttributeError"
  using ted_state_absent [where d = "[(''consumption'', TNum 5)]" and key = "''voltage''"
      and grp = "''mtus''" and g = "[]" and position = "''2''"]
    ted_state_absent [where d = "[(''mtus'', TDict [(''1'', TDict [(''voltage'', TNum 120)])])]"
      and key = "''voltage''" and grp = "''mtus''"
      and g = "[(''1'', TDict [(''voltage'', TNum 120)])]" and position = "''2''"]
  by simp

end
